theory Spec2Isabelle
  imports Complex_Main "HOL-Library.Word"
begin

section \<open>JavaScript values\<close>

type_synonym u32 = "32 word"
type_synonym addr = nat

text \<open>
  A JavaScript number: the finite doubles are read as the reals they denote. The code
  modelled below only compares numbers and tests them for being integers, so no
  rounding is involved.
\<close>

datatype number = NaN | NegInf | Finite real | PosInf

datatype error = TypeError string | RangeError string

text \<open>
  The values the factories receive. A function value is a generator of uniform numbers
  supplied by the caller: it acts on a state \<open>'x\<close> of its own. A \<open>Uint32Array\<close> is a
  reference into the store of arrays.
\<close>

datatype 'x jsval =
    Undefined
  | Null
  | Boolean bool
  | Number number
  | String string
  | Uint32Array addr
  | Function "'x \<Rightarrow> (error + number) \<times> 'x"
  | Array "'x jsval list"
  | Object "(string \<times> 'x jsval) list"

fun num_lt :: "number \<Rightarrow> number \<Rightarrow> bool" where
  "num_lt NaN y = False"
| "num_lt x NaN = False"
| "num_lt NegInf NegInf = False"
| "num_lt NegInf y = True"
| "num_lt (Finite a) (Finite b) = (a < b)"
| "num_lt (Finite a) PosInf = True"
| "num_lt (Finite a) NegInf = False"
| "num_lt PosInf y = False"

definition num_eq :: "number \<Rightarrow> number \<Rightarrow> bool" where
  "num_eq x y = (x \<noteq> NaN \<and> y \<noteq> NaN \<and> x = y)"

definition num_le :: "number \<Rightarrow> number \<Rightarrow> bool" where
  "num_le x y = (num_lt x y \<or> num_eq x y)"

fun num_floor :: "number \<Rightarrow> number" where
  "num_floor (Finite r) = Finite (of_int \<lfloor>r\<rfloor>)"
| "num_floor x = x"

text \<open>\<open>@stdlib/math/base/assert/is-nan\<close>: \<open>x !== x\<close>.\<close>

definition isnan :: "number \<Rightarrow> bool" where
  "isnan x = (\<not> num_eq x x)"

text \<open>\<open>@stdlib/math/base/assert/is-positive-integer\<close>: \<open>floor(x) === x && x > 0\<close>.\<close>

definition isPositiveInteger :: "number \<Rightarrow> bool" where
  "isPositiveInteger x = (num_eq (num_floor x) x \<and> num_lt (Finite 0) x)"

text \<open>\<open>@stdlib/assert/is-plain-object\<close>, \<open>is-function\<close>, \<open>has-own-property\<close>.\<close>

fun isObject :: "'x jsval \<Rightarrow> bool" where
  "isObject (Object kvs) = True"
| "isObject v = False"

fun isFunction :: "'x jsval \<Rightarrow> bool" where
  "isFunction (Function f) = True"
| "isFunction v = False"

fun hasOwnProp :: "'x jsval \<Rightarrow> string \<Rightarrow> bool" where
  "hasOwnProp (Object kvs) key = (map_of kvs key \<noteq> None)"
| "hasOwnProp v key = False"

text \<open>Reading the property \<open>key\<close> of a plain object: \<open>opts.key\<close>.\<close>

fun getprop :: "'x jsval \<Rightarrow> string \<Rightarrow> 'x jsval" where
  "getprop (Object kvs) key = (case map_of kvs key of Some v \<Rightarrow> v | None \<Rightarrow> Undefined)"
| "getprop v key = Undefined"

text \<open>The comparisons \<open>v === void 0\<close> and \<open>v === false\<close>, and \<open>@stdlib/assert/is-boolean\<close>.\<close>

fun isUndefined :: "'x jsval \<Rightarrow> bool" where
  "isUndefined Undefined = True"
| "isUndefined v = False"

fun isFalse :: "'x jsval \<Rightarrow> bool" where
  "isFalse (Boolean b) = (\<not> b)"
| "isFalse v = False"

fun isBoolean :: "'x jsval \<Rightarrow> bool" where
  "isBoolean (Boolean b) = True"
| "isBoolean v = False"

text \<open>The truth value of a value in a condition (\<open>opts && opts.prng\<close>).\<close>

fun truthy :: "'x jsval \<Rightarrow> bool" where
  "truthy Undefined = False"
| "truthy Null = False"
| "truthy (Boolean b) = b"
| "truthy (Number x) = (\<not> isnan x \<and> x \<noteq> Finite 0)"
| "truthy (String s) = (s \<noteq> [])"
| "truthy v = True"

section \<open>Samplers over a uniform source\<close>

text \<open>
  The base samplers \<open>erlang0( rand, k, lambda )\<close> and \<open>kumaraswamy0( rand, a, b )\<close> are
  required from \<open>./erlang.js\<close> and \<open>./kumaraswamy.js\<close>. All they can do with \<open>rand\<close> is
  call it; such a function is a tree that either returns a number, throws, or draws one
  uniform number and continues with it. A call of \<open>rand\<close> that throws ends the sampler with
  that error.
\<close>

datatype sampler = Return number | Throw error | Draw "number \<Rightarrow> sampler"

type_synonym 's source = "'s \<Rightarrow> (error + number) \<times> 's"

primrec run :: "sampler \<Rightarrow> 's source \<Rightarrow> 's \<Rightarrow> (error + number) \<times> 's" where
  "run (Return v) rand s = (Inr v, s)"
| "run (Throw e) rand s = (Inl e, s)"
| "run (Draw k) rand s =
     (case rand s of (Inl e, s') \<Rightarrow> (Inl e, s') | (Inr u, s') \<Rightarrow> run (k u) rand s')"

text \<open>
  \<open>erlang1\<close> and \<open>erlang2\<close>, \<open>kumaraswamy1\<close> and \<open>kumaraswamy2\<close>, with the variables of
  the enclosing \<open>factory\<close> they read (\<open>rand\<close> and the bound parameters) as arguments.
\<close>

definition erlang1 ::
  "('x jsval \<Rightarrow> 'x jsval \<Rightarrow> sampler) \<Rightarrow> 's source \<Rightarrow> 'x jsval \<Rightarrow> 'x jsval
    \<Rightarrow> 's \<Rightarrow> (error + number) \<times> 's" where
  "erlang1 erlang0 rand k lambda s = run (erlang0 k lambda) rand s"

definition erlang2 ::
  "('x jsval \<Rightarrow> 'x jsval \<Rightarrow> sampler) \<Rightarrow> 's source \<Rightarrow> number \<Rightarrow> number
    \<Rightarrow> 's \<Rightarrow> (error + number) \<times> 's" where
  "erlang2 erlang0 rand k lambda s =
     (if isnan k \<or> isnan lambda \<or> \<not> isPositiveInteger k \<or> num_le lambda (Finite 0)
      then (Inr NaN, s)
      else run (erlang0 (Number k) (Number lambda)) rand s)"

definition kumaraswamy1 ::
  "('x jsval \<Rightarrow> 'x jsval \<Rightarrow> sampler) \<Rightarrow> 's source \<Rightarrow> 'x jsval \<Rightarrow> 'x jsval
    \<Rightarrow> 's \<Rightarrow> (error + number) \<times> 's" where
  "kumaraswamy1 kumaraswamy0 rand a b s = run (kumaraswamy0 a b) rand s"

definition kumaraswamy2 ::
  "('x jsval \<Rightarrow> 'x jsval \<Rightarrow> sampler) \<Rightarrow> 's source \<Rightarrow> number \<Rightarrow> number
    \<Rightarrow> 's \<Rightarrow> (error + number) \<times> 's" where
  "kumaraswamy2 kumaraswamy0 rand a b s =
     (if isnan a \<or> isnan b \<or> num_le a (Finite 0) \<or> num_le b (Finite 0)
      then (Inr NaN, s)
      else run (kumaraswamy0 (Number a) (Number b)) rand s)"

section \<open>The store\<close>

text \<open>
  Typed arrays and base generator objects are mutable and can be reached from several
  places, so both live in a store. \<open>array_lim\<close> and \<open>generator_lim\<close> are the next free
  addresses. \<open>external\<close> is the state of the uniform sources supplied by callers.
\<close>

record mt19937 =
  STATE :: addr
  shared :: bool

record 'x world =
  u32arrays :: "addr \<Rightarrow> u32 list"
  array_lim :: addr
  generators :: "nat \<Rightarrow> mt19937"
  generator_lim :: nat
  external :: 'x

definition new_array :: "u32 list \<Rightarrow> 'x world \<Rightarrow> addr \<times> 'x world" where
  "new_array xs w =
     (array_lim w,
      w\<lparr>u32arrays := (u32arrays w)(array_lim w := xs), array_lim := Suc (array_lim w)\<rparr>)"

definition new_generator :: "mt19937 \<Rightarrow> 'x world \<Rightarrow> nat \<times> 'x world" where
  "new_generator g w =
     (generator_lim w,
      w\<lparr>generators := (generators w)(generator_lim w := g),
        generator_lim := Suc (generator_lim w)\<rparr>)"

section \<open>The base generator\<close>

text \<open>
  Modelled from the spec: the bit generator behind \<open>@stdlib/random/base/mt19937\<close>, whose
  code is not among the sources. The spec (4.1, 4.2) gives its contract only: a seed
  determines an initial state, a draw is a function of the state that returns a value
  and the next state, a state is an array of unsigned 32-bit words that passes a
  validity predicate, and an out-of-range seed is refused. The recurrence itself is a
  parameter of everything below.
\<close>

record bitgen =
  seed_ok :: "nat list \<Rightarrow> bool"
  seed_state :: "nat list \<Rightarrow> u32 list"
  state_ok :: "u32 list \<Rightarrow> bool"
  state_seed :: "u32 list \<Rightarrow> nat list"
  next_raw :: "u32 list \<Rightarrow> number \<times> u32 list"
  next_normalized :: "u32 list \<Rightarrow> number \<times> u32 list"

text \<open>
  Modelled from the spec: a seed is a single unsigned integer or a sequence of unsigned
  integers (spec 3, Seed).
\<close>

fun uint_of :: "'x jsval \<Rightarrow> nat option" where
  "uint_of (Number (Finite r)) =
     (if 0 \<le> r \<and> r = of_int \<lfloor>r\<rfloor> then Some (nat \<lfloor>r\<rfloor>) else None)"
| "uint_of v = None"

fun seed_words :: "'x jsval \<Rightarrow> nat list option" where
  "seed_words (Array vs) = those (map uint_of vs)"
| "seed_words v = map_option (\<lambda>n. [n]) (uint_of v)"

text \<open>
  Modelled from the spec: a generator made from a seed owns a new state array, which
  holds the initial state the bit generator derives from the seed (spec 4.3).
\<close>

definition from_seed :: "bitgen \<Rightarrow> nat list \<Rightarrow> 'x world \<Rightarrow> nat \<times> 'x world" where
  "from_seed bg sd w =
     (case new_array (seed_state bg sd) w of
        (a, w') \<Rightarrow> new_generator \<lparr>STATE = a, shared = False\<rparr> w')"

text \<open>
  Modelled from the spec: \<open>randu\<close>, the factory of \<open>@stdlib/random/base/mt19937\<close> (spec
  4.3 and the options of the README files): without options, or without \<open>seed\<close> and
  \<open>state\<close>, the generator is seeded from entropy (the argument \<open>entropy\<close>); \<open>state\<close> wins
  over \<open>seed\<close>; a given state is validated, then copied unless \<open>copy\<close> is \<open>false\<close>, in
  which case the generator refers to the given array and takes part in shared state.
\<close>

definition randu ::
  "bitgen \<Rightarrow> nat list \<Rightarrow> 'x jsval option \<Rightarrow> 'x world \<Rightarrow> error + (nat \<times> 'x world)" where
  "randu bg entropy options w =
     (case options of
        None \<Rightarrow> Inr (from_seed bg entropy w)
      | Some opts \<Rightarrow>
          if \<not> isObject opts
          then Inl (TypeError ''invalid argument. Options argument must be an object.'')
          else if hasOwnProp opts ''copy'' \<and> \<not> isBoolean (getprop opts ''copy'')
          then Inl (TypeError ''invalid option. copy option must be a boolean.'')
          else if hasOwnProp opts ''state'' then
            (case getprop opts ''state'' of
               Uint32Array a \<Rightarrow>
                 if \<not> state_ok bg (u32arrays w a)
                 then Inl (RangeError ''invalid option. state option is not a valid state.'')
                 else if isFalse (getprop opts ''copy'')
                 then Inr (new_generator \<lparr>STATE = a, shared = True\<rparr> w)
                 else (case new_array (u32arrays w a) w of
                         (a', w') \<Rightarrow> Inr (new_generator \<lparr>STATE = a', shared = False\<rparr> w'))
             | v \<Rightarrow> Inl (TypeError ''invalid option. state option must be a Uint32Array.''))
          else if hasOwnProp opts ''seed'' then
            (case seed_words (getprop opts ''seed'') of
               None \<Rightarrow> Inl (TypeError ''invalid option. seed option is not a seed.'')
             | Some sd \<Rightarrow>
                 if seed_ok bg sd then Inr (from_seed bg sd w)
                 else Inl (RangeError ''invalid option. seed option is out of range.''))
          else Inr (from_seed bg entropy w))"

text \<open>
  Modelled from the spec: the members of a base generator object (spec 4.3, 6). A draw
  reads the state array the generator refers to and writes the next state into it.
  Reading \<open>.state\<close> returns a snapshot, a new array. Assigning \<open>.state\<close> follows the
  aliasing rules of spec 4.3 and of the notes of the README files: a generator with
  shared state copies a state of the same length into the common array, and points to
  the given array when the lengths differ; a generator that owns its state copies the
  given state into its own array. The spec does not say what \<open>.seed\<close> of a generator
  made from a state is; here the seed is read from the state array (\<open>state_seed\<close>), and
  the size in bytes is four times the number of words.
\<close>

definition mt_draw :: "bitgen \<Rightarrow> bool \<Rightarrow> nat \<Rightarrow> 'x world source" where
  "mt_draw bg nrm g w =
     (let a = STATE (generators w g) in
      case (if nrm then next_normalized bg else next_raw bg) (u32arrays w a) of
        (u, st) \<Rightarrow> (Inr u, w\<lparr>u32arrays := (u32arrays w)(a := st)\<rparr>))"

definition of_uint :: "nat \<Rightarrow> 'x jsval" where
  "of_uint n = Number (Finite (real n))"

definition mt_seed :: "bitgen \<Rightarrow> nat \<Rightarrow> 'x world \<Rightarrow> 'x jsval" where
  "mt_seed bg g w = Array (map of_uint (state_seed bg (u32arrays w (STATE (generators w g)))))"

definition mt_seedLength :: "bitgen \<Rightarrow> nat \<Rightarrow> 'x world \<Rightarrow> 'x jsval" where
  "mt_seedLength bg g w = of_uint (length (state_seed bg (u32arrays w (STATE (generators w g)))))"

definition mt_stateLength :: "nat \<Rightarrow> 'x world \<Rightarrow> 'x jsval" where
  "mt_stateLength g w = of_uint (length (u32arrays w (STATE (generators w g))))"

definition mt_byteLength :: "nat \<Rightarrow> 'x world \<Rightarrow> 'x jsval" where
  "mt_byteLength g w = of_uint (4 * length (u32arrays w (STATE (generators w g))))"

definition mt_getState :: "nat \<Rightarrow> 'x world \<Rightarrow> addr \<times> 'x world" where
  "mt_getState g w = new_array (u32arrays w (STATE (generators w g))) w"

definition mt_setState :: "bitgen \<Rightarrow> nat \<Rightarrow> 'x jsval \<Rightarrow> 'x world \<Rightarrow> error + 'x world" where
  "mt_setState bg g s w =
     (case s of
        Uint32Array b \<Rightarrow>
          if \<not> state_ok bg (u32arrays w b)
          then Inl (RangeError ''invalid argument. Must provide a valid state.'')
          else if shared (generators w g) \<and>
                  length (u32arrays w b) \<noteq> length (u32arrays w (STATE (generators w g)))
          then Inr (w\<lparr>generators := (generators w)(g := (generators w g)\<lparr>STATE := b\<rparr>)\<rparr>)
          else Inr (w\<lparr>u32arrays :=
                        (u32arrays w)(STATE (generators w g) := u32arrays w b)\<rparr>)
      | v \<Rightarrow> Inl (TypeError ''invalid argument. Must provide a Uint32Array.''))"

section \<open>The distribution factories\<close>

text \<open>
  The variable \<open>rand\<close> of \<open>factory\<close> holds either the function given as the \<open>prng\<close>
  option or a base generator object made by \<open>randu\<close>.
\<close>

datatype 'x uniform = External "'x \<Rightarrow> (error + number) \<times> 'x" | Builtin nat

definition external_call :: "('x \<Rightarrow> (error + number) \<times> 'x) \<Rightarrow> 'x world source" where
  "external_call f w = (case f (external w) of (r, x) \<Rightarrow> (r, w\<lparr>external := x\<rparr>))"

text \<open>
  \<open>rand()\<close> before and after the assignment \<open>rand = rand.normalized\<close>. A function given
  by the caller has no member \<open>normalized\<close>, so any use of it after that assignment would
  throw.
\<close>

fun call_rand :: "bitgen \<Rightarrow> 'x uniform \<Rightarrow> 'x world source" where
  "call_rand bg (External f) = external_call f"
| "call_rand bg (Builtin g) = mt_draw bg False g"

fun call_normalized :: "bitgen \<Rightarrow> 'x uniform \<Rightarrow> 'x world source" where
  "call_normalized bg (Builtin g) = mt_draw bg True g"
| "call_normalized bg (External f) = (\<lambda>w. (Inl (TypeError ''rand is not a function''), w))"

type_synonym 'x getter = "'x world \<Rightarrow> (error + 'x jsval) \<times> 'x world"

definition constantFunction :: "'x jsval \<Rightarrow> 'x getter" where
  "constantFunction v = (\<lambda>w. (Inr v, w))"

definition noop :: "'x jsval \<Rightarrow> 'x world \<Rightarrow> error + 'x world" where
  "noop s = (\<lambda>w. Inr w)"

text \<open>The accessors of \<open>factory\<close>; they read \<open>rand\<close> after \<open>rand = rand.normalized\<close>.\<close>

fun getSeed :: "bitgen \<Rightarrow> 'x uniform \<Rightarrow> 'x getter" where
  "getSeed bg (Builtin g) = (\<lambda>w. (Inr (mt_seed bg g w), w))"
| "getSeed bg (External f) = (\<lambda>w. (Inl (TypeError ''rand is undefined''), w))"

fun getSeedLength :: "bitgen \<Rightarrow> 'x uniform \<Rightarrow> 'x getter" where
  "getSeedLength bg (Builtin g) = (\<lambda>w. (Inr (mt_seedLength bg g w), w))"
| "getSeedLength bg (External f) = (\<lambda>w. (Inl (TypeError ''rand is undefined''), w))"

fun getStateLength :: "'x uniform \<Rightarrow> 'x getter" where
  "getStateLength (Builtin g) = (\<lambda>w. (Inr (mt_stateLength g w), w))"
| "getStateLength (External f) = (\<lambda>w. (Inl (TypeError ''rand is undefined''), w))"

fun getStateSize :: "'x uniform \<Rightarrow> 'x getter" where
  "getStateSize (Builtin g) = (\<lambda>w. (Inr (mt_byteLength g w), w))"
| "getStateSize (External f) = (\<lambda>w. (Inl (TypeError ''rand is undefined''), w))"

fun getState :: "'x uniform \<Rightarrow> 'x getter" where
  "getState (Builtin g) = (\<lambda>w. case mt_getState g w of (a, w') \<Rightarrow> (Inr (Uint32Array a), w'))"
| "getState (External f) = (\<lambda>w. (Inl (TypeError ''rand is undefined''), w))"

fun setState :: "bitgen \<Rightarrow> 'x uniform \<Rightarrow> 'x jsval \<Rightarrow> 'x world \<Rightarrow> error + 'x world" where
  "setState bg (Builtin g) s = mt_setState bg g s"
| "setState bg (External f) s = (\<lambda>w. Inl (TypeError ''rand is undefined''))"

text \<open>\<open>@stdlib/array/to-json\<close>: the type and the elements of a typed array.\<close>

fun typedarray2json :: "'x world \<Rightarrow> 'x jsval \<Rightarrow> error + 'x jsval" where
  "typedarray2json w (Uint32Array a) =
     Inr (Object [(''type'', String ''Uint32Array''),
                  (''data'', Array (map (\<lambda>x. of_uint (unat x)) (u32arrays w a)))])"
| "typedarray2json w v = Inl (TypeError ''invalid argument. Must provide a typed array.'')"

definition toJSON :: "string \<Rightarrow> 'x uniform \<Rightarrow> 'x jsval \<Rightarrow> 'x jsval \<Rightarrow> 'x getter" where
  "toJSON name rand k lambda w =
     (case getState rand w of
        (Inl e, w') \<Rightarrow> (Inl e, w')
      | (Inr s, w') \<Rightarrow>
          (case typedarray2json w' s of
             Inl e \<Rightarrow> (Inl e, w')
           | Inr st \<Rightarrow>
               (Inr (Object [(''type'', String ''PRNG''),
                             (''name'', String name),
                             (''state'', st),
                             (''params'', Array (if isUndefined k then [] else [k, lambda]))]),
                w')))"

text \<open>
  The two factories of the sources, for the Erlang and for the Kumaraswamy distribution,
  are the same text up to four names: the value of \<open>NAME\<close>, \<open>validate\<close>, and the two
  functions one of which is returned (\<open>erlang1\<close> and \<open>erlang2\<close>, \<open>kumaraswamy1\<close> and
  \<open>kumaraswamy2\<close>). \<open>factory\<close> below is that text, with the four as a record.
\<close>

record 'x dist =
  dist_NAME :: string
  validate :: "'x jsval \<Rightarrow> 'x jsval \<Rightarrow> error option"
  prng1 :: "'x world source \<Rightarrow> 'x jsval \<Rightarrow> 'x jsval \<Rightarrow> 'x world \<Rightarrow> (error + number) \<times> 'x world"
  prng2 :: "'x world source \<Rightarrow> number \<Rightarrow> number \<Rightarrow> 'x world \<Rightarrow> (error + number) \<times> 'x world"

text \<open>
  The object \<open>factory\<close> returns: a function (\<open>invoke\<close>) with properties. A property is
  given by what reading it does; \<open>state\<close> can also be assigned (\<open>state_set\<close>).
\<close>

record 'x prng =
  NAME :: string
  seed :: "'x getter"
  seedLength :: "'x getter"
  state_get :: "'x getter"
  state_set :: "'x jsval \<Rightarrow> 'x world \<Rightarrow> error + 'x world"
  stateLength :: "'x getter"
  byteLength :: "'x getter"
  toJSON_method :: "'x getter"
  PRNG :: "'x uniform"
  invoke :: "number \<Rightarrow> number \<Rightarrow> 'x world \<Rightarrow> (error + number) \<times> 'x world"

text \<open>
  The options block of \<open>factory\<close>, which occurs twice in it, for \<open>arguments[ 0 ]\<close> and for
  \<open>arguments[ 2 ]\<close>.
\<close>

definition options_rand ::
  "bitgen \<Rightarrow> nat list \<Rightarrow> 'x jsval \<Rightarrow> 'x world \<Rightarrow> error + ('x uniform \<times> 'x world)" where
  "options_rand bg entropy opts w =
     (if \<not> isObject opts
      then Inl (TypeError ''invalid argument. Options argument must be an object.'')
      else if hasOwnProp opts ''prng'' then
        (case getprop opts ''prng'' of
           Function f \<Rightarrow> Inr (External f, w)
         | v \<Rightarrow> Inl (TypeError
             ''invalid option. prng option must be a pseudorandom number generator function.''))
      else (case randu bg entropy (Some opts) w of
              Inl e \<Rightarrow> Inl e
            | Inr (g, w') \<Rightarrow> Inr (Builtin g, w')))"

text \<open>
  The first part of \<open>factory\<close>, up to the choice between the two functions: it leaves
  \<open>rand\<close>, \<open>k\<close>, \<open>lambda\<close> and \<open>opts\<close> set, or throws. A variable that was not assigned is
  \<open>Undefined\<close>.
\<close>

definition factory_rand ::
  "bitgen \<Rightarrow> 'x dist \<Rightarrow> nat list \<Rightarrow> 'x jsval list \<Rightarrow> 'x world
    \<Rightarrow> error + (('x uniform \<times> 'x jsval \<times> 'x jsval \<times> 'x jsval) \<times> 'x world)" where
  "factory_rand bg d entropy arguments w =
     (case arguments of
        [] \<Rightarrow>
          (case randu bg entropy None w of
             Inl e \<Rightarrow> Inl e
           | Inr (g, w') \<Rightarrow> Inr ((Builtin g, Undefined, Undefined, Undefined), w'))
      | [opts] \<Rightarrow>
          (case options_rand bg entropy opts w of
             Inl e \<Rightarrow> Inl e
           | Inr (rand, w') \<Rightarrow> Inr ((rand, Undefined, Undefined, opts), w'))
      | k # lambda # rest \<Rightarrow>
          (case validate d k lambda of
             Some err \<Rightarrow> Inl err
           | None \<Rightarrow>
               (case rest of
                  [] \<Rightarrow>
                    (case randu bg entropy None w of
                       Inl e \<Rightarrow> Inl e
                     | Inr (g, w') \<Rightarrow> Inr ((Builtin g, k, lambda, Undefined), w'))
                | opts # others \<Rightarrow>
                    (case options_rand bg entropy opts w of
                       Inl e \<Rightarrow> Inl e
                     | Inr (rand, w') \<Rightarrow> Inr ((rand, k, lambda, opts), w')))))"

text \<open>
  The second part of \<open>factory\<close>: the function chosen by \<open>k === void 0\<close> and the
  properties set on it, by \<open>opts && opts.prng\<close>.
\<close>

definition factory_prng ::
  "bitgen \<Rightarrow> 'x dist \<Rightarrow> 'x uniform \<Rightarrow> 'x jsval \<Rightarrow> 'x jsval \<Rightarrow> 'x jsval \<Rightarrow> 'x prng" where
  "factory_prng bg d rand k lambda opts =
     (if truthy opts \<and> truthy (getprop opts ''prng'')
      then \<lparr>NAME = dist_NAME d,
            seed = constantFunction Null,
            seedLength = constantFunction Null,
            state_get = constantFunction Null,
            state_set = noop,
            stateLength = constantFunction Null,
            byteLength = constantFunction Null,
            toJSON_method = constantFunction Null,
            PRNG = rand,
            invoke = (if isUndefined k then prng2 d (call_rand bg rand)
                      else (\<lambda>k' lambda'. prng1 d (call_rand bg rand) k lambda))\<rparr>
      else \<lparr>NAME = dist_NAME d,
            seed = getSeed bg rand,
            seedLength = getSeedLength bg rand,
            state_get = getState rand,
            state_set = setState bg rand,
            stateLength = getStateLength rand,
            byteLength = getStateSize rand,
            toJSON_method = toJSON (dist_NAME d) rand k lambda,
            PRNG = rand,
            invoke = (if isUndefined k then prng2 d (call_normalized bg rand)
                      else (\<lambda>k' lambda'. prng1 d (call_normalized bg rand) k lambda))\<rparr>)"

definition factory ::
  "bitgen \<Rightarrow> 'x dist \<Rightarrow> nat list \<Rightarrow> 'x jsval list \<Rightarrow> 'x world \<Rightarrow> error + ('x prng \<times> 'x world)" where
  "factory bg d entropy arguments w =
     (case factory_rand bg d entropy arguments w of
        Inl e \<Rightarrow> Inl e
      | Inr ((rand, k, lambda, opts), w') \<Rightarrow> Inr (factory_prng bg d rand k lambda opts, w'))"

definition erlang ::
  "('x jsval \<Rightarrow> 'x jsval \<Rightarrow> sampler) \<Rightarrow> ('x jsval \<Rightarrow> 'x jsval \<Rightarrow> error option) \<Rightarrow> 'x dist" where
  "erlang erlang0 v =
     \<lparr>dist_NAME = ''erlang'', validate = v, prng1 = erlang1 erlang0, prng2 = erlang2 erlang0\<rparr>"

definition kumaraswamy ::
  "('x jsval \<Rightarrow> 'x jsval \<Rightarrow> sampler) \<Rightarrow> ('x jsval \<Rightarrow> 'x jsval \<Rightarrow> error option) \<Rightarrow> 'x dist" where
  "kumaraswamy kumaraswamy0 v =
     \<lparr>dist_NAME = ''kumaraswamy'', validate = v,
      prng1 = kumaraswamy1 kumaraswamy0, prng2 = kumaraswamy2 kumaraswamy0\<rparr>"

text \<open>
  A sequence of calls of a function of two arguments on a state, each call with its
  arguments and its result; \<open>calls\<close> is a sequence of calls of a returned function.
\<close>

fun call_seq ::
  "(number \<Rightarrow> number \<Rightarrow> 's \<Rightarrow> (error + number) \<times> 's) \<Rightarrow> (number \<times> number) list \<Rightarrow> 's
    \<Rightarrow> (error + number) list \<times> 's" where
  "call_seq f [] s = ([], s)"
| "call_seq f ((k, lambda) # ps) s =
     (case f k lambda s of
        (r, s') \<Rightarrow> (case call_seq f ps s' of (rs, s'') \<Rightarrow> (r # rs, s'')))"

definition calls ::
  "'x prng \<Rightarrow> (number \<times> number) list \<Rightarrow> 'x world \<Rightarrow> (error + number) list \<times> 'x world" where
  "calls h ps w = call_seq (invoke h) ps w"

text \<open>The options argument of a call of \<open>factory\<close>, if there is one.\<close>

fun options_argument :: "'x jsval list \<Rightarrow> 'x jsval" where
  "options_argument [opts] = opts"
| "options_argument (k # lambda # opts # others) = opts"
| "options_argument arguments = Undefined"

section \<open>Strided filling\<close>

text \<open>
  Modelled from the spec: the strided fill functions (\<open>@stdlib/random/strided\<close>), of
  which the sources hold the documentation only. Spec 3 and 4.5: an array argument is a
  base reference with a stride and a starting offset; the address of logical index \<open>i\<close>
  is \<open>offset + i*stride\<close>; for \<open>i\<close> from \<open>0\<close> to \<open>N-1\<close> the parameters are read at their
  addresses, the sampler is invoked, and the result is written at the address of the
  output. Every access goes through the get and set capability of the container.
\<close>

record 'c container =
  get_at :: "'c \<Rightarrow> int \<Rightarrow> number"
  set_at :: "'c \<Rightarrow> int \<Rightarrow> number \<Rightarrow> 'c"

record 'c descriptor =
  base :: 'c
  stride :: int
  offset :: int

definition address :: "'c descriptor \<Rightarrow> int \<Rightarrow> int" where
  "address d i = offset d + i * stride d"

fun fill_loop ::
  "nat \<Rightarrow> int \<Rightarrow> 'p container \<Rightarrow> 'p descriptor list \<Rightarrow> 'c container \<Rightarrow> 'c descriptor
    \<Rightarrow> (number list \<Rightarrow> 's \<Rightarrow> number \<times> 's) \<Rightarrow> 's \<Rightarrow> 'c \<times> 's" where
  "fill_loop 0 i pc params oc out sampler s = (base out, s)"
| "fill_loop (Suc n) i pc params oc out sampler s =
     (case sampler (map (\<lambda>d. get_at pc (base d) (address d i)) params) s of
        (v, s') \<Rightarrow>
          fill_loop n (i + 1) pc params oc
            (out\<lparr>base := set_at oc (base out) (address out i) v\<rparr>) sampler s')"

definition fill ::
  "int \<Rightarrow> 'p container \<Rightarrow> 'p descriptor list \<Rightarrow> 'c container \<Rightarrow> 'c descriptor
    \<Rightarrow> (number list \<Rightarrow> 's \<Rightarrow> number \<times> 's) \<Rightarrow> 's \<Rightarrow> 'c \<times> 's" where
  "fill N pc params oc out sampler s = fill_loop (nat N) 0 pc params oc out sampler s"

text \<open>
  A typed array of doubles as a container: a read outside the array gives no number, a
  write outside it is ignored. A view of the array from element \<open>start\<close> on (a typed
  array on the same buffer, with a byte offset) has the indices \<open>0\<close> to
  \<open>length - start - 1\<close> only: its index \<open>j\<close> is the element \<open>start + j\<close> of the array, and it
  has no negative index. What is written through the view is written to the array. Such
  a view exists for \<open>start \<le> length\<close>.
\<close>

definition float64array :: "number list container" where
  "float64array =
     \<lparr>get_at = (\<lambda>xs i. if 0 \<le> i \<and> i < int (length xs) then xs ! nat i else NaN),
      set_at = (\<lambda>xs i v. if 0 \<le> i \<and> i < int (length xs) then xs[nat i := v] else xs)\<rparr>"

definition view :: "nat \<Rightarrow> number list container" where
  "view start =
     \<lparr>get_at = (\<lambda>xs j. if 0 \<le> j then get_at float64array xs (int start + j) else NaN),
      set_at = (\<lambda>xs j v. if 0 \<le> j then set_at float64array xs (int start + j) v else xs)\<rparr>"

text \<open>
  Modelled from the spec: the two calling conventions of a distribution with two
  parameters (spec 4.5, 6), whose code is not among the sources. \<open>strided_ndarray\<close> is
  \<open>dist.ndarray( N, a, sa, oa, b, sb, ob, out, so, oo )\<close>, with a starting index for each
  array. \<open>strided\<close> is \<open>dist( N, a, sa, b, sb, out, so )\<close>, without starting indices. The
  README of the sources says of this form that indexing is relative to the first index
  and that an offset is introduced with a typed array view, and it walks a view of three
  elements with stride \<open>-1\<close> for \<open>N = 3\<close>. The \<open>N\<close> elements of an array are therefore the
  indices \<open>0\<close>, \<open>|stride|\<close>, ..., \<open>(N-1)*|stride|\<close> whatever the sign of the stride: a walk
  with a stride that is not positive starts at the index \<open>(1-N)*stride\<close>, the last of
  them, and ends at index \<open>0\<close>.
\<close>

definition stride2offset :: "int \<Rightarrow> int \<Rightarrow> int" where
  "stride2offset N s = (if 0 < s then 0 else (1 - N) * s)"

definition strided_ndarray ::
  "'p container \<Rightarrow> 'c container \<Rightarrow> (number list \<Rightarrow> 's \<Rightarrow> number \<times> 's)
    \<Rightarrow> int \<Rightarrow> 'p \<Rightarrow> int \<Rightarrow> int \<Rightarrow> 'p \<Rightarrow> int \<Rightarrow> int \<Rightarrow> 'c \<Rightarrow> int \<Rightarrow> int \<Rightarrow> 's \<Rightarrow> 'c \<times> 's" where
  "strided_ndarray pc oc sampler N a sa oa b sb ob out so oo s =
     fill N pc [\<lparr>base = a, stride = sa, offset = oa\<rparr>, \<lparr>base = b, stride = sb, offset = ob\<rparr>]
       oc \<lparr>base = out, stride = so, offset = oo\<rparr> sampler s"

definition strided ::
  "'p container \<Rightarrow> 'c container \<Rightarrow> (number list \<Rightarrow> 's \<Rightarrow> number \<times> 's)
    \<Rightarrow> int \<Rightarrow> 'p \<Rightarrow> int \<Rightarrow> 'p \<Rightarrow> int \<Rightarrow> 'c \<Rightarrow> int \<Rightarrow> 's \<Rightarrow> 'c \<times> 's" where
  "strided pc oc sampler N a sa b sb out so s =
     strided_ndarray pc oc sampler N a sa (stride2offset N sa) b sb (stride2offset N sb)
       out so (stride2offset N so) s"

section \<open>Instances for the examples\<close>

text \<open>
  The theorems below hold for every bit generator, base sampler and uniform source. The
  examples that follow them need some: a multiplicative congruential generator
  (multiplier 16807, modulus \<open>2^31 - 1\<close>) whose state array holds the current value
  followed by the seed, a base sampler that returns the first uniform number it draws,
  and a source supplied by a caller that counts its calls.
\<close>

definition lehmer_next :: "u32 list \<Rightarrow> nat" where
  "lehmer_next st = (case st of [] \<Rightarrow> 0 | x # xs \<Rightarrow> (16807 * unat x) mod 2147483647)"

definition lehmer :: bitgen where
  "lehmer =
     \<lparr>seed_ok = (\<lambda>sd. sd \<noteq> [] \<and> list_all (\<lambda>n. 0 < n \<and> n < 2147483647) sd),
      seed_state = (\<lambda>sd. case sd of [] \<Rightarrow> [] | n # ns \<Rightarrow> map word_of_nat (n # n # ns)),
      state_ok = (\<lambda>st. case st of [] \<Rightarrow> False | x # xs \<Rightarrow> 0 < unat x \<and> unat x < 2147483647),
      state_seed = (\<lambda>st. map unat (tl st)),
      next_raw = (\<lambda>st. (Finite (real (lehmer_next st)), word_of_nat (lehmer_next st) # tl st)),
      next_normalized = (\<lambda>st. (Finite (real (lehmer_next st - 1) / 2147483646),
                               word_of_nat (lehmer_next st) # tl st))\<rparr>"

definition first_draw :: "'x jsval \<Rightarrow> 'x jsval \<Rightarrow> sampler" where
  "first_draw a b = Draw (\<lambda>u. Return u)"

definition counter :: "nat \<Rightarrow> (error + number) \<times> nat" where
  "counter n = (Inr (Finite (1 / real (n + 2))), Suc n)"

definition empty_world :: "'x \<Rightarrow> 'x world" where
  "empty_world x =
     \<lparr>u32arrays = (\<lambda>a. []), array_lim = 0,
      generators = (\<lambda>g. \<lparr>STATE = 0, shared = False\<rparr>), generator_lim = 0,
      external = x\<rparr>"

text \<open>
  Modelled from the spec: \<open>validate\<close> of the two factories (\<open>./validate.js\<close>), which is
  not among the sources. The documentation of \<open>factory\<close> states what it refuses: for the
  Erlang distribution \<open>k\<close> must be a positive integer and \<open>lambda\<close> a positive number, for
  the Kumaraswamy distribution \<open>a\<close> and \<open>b\<close> must be positive numbers.
\<close>

fun isPositiveNumber :: "'x jsval \<Rightarrow> bool" where
  "isPositiveNumber (Number x) = num_lt (Finite 0) x"
| "isPositiveNumber v = False"

fun isPositiveIntegerValue :: "'x jsval \<Rightarrow> bool" where
  "isPositiveIntegerValue (Number (Finite r)) = (0 < r \<and> r = of_int \<lfloor>r\<rfloor>)"
| "isPositiveIntegerValue v = False"

definition erlang_validate :: "'x jsval \<Rightarrow> 'x jsval \<Rightarrow> error option" where
  "erlang_validate k lambda =
     (if \<not> isPositiveIntegerValue k
      then Some (TypeError ''invalid argument. First argument must be a positive integer.'')
      else if \<not> isPositiveNumber lambda
      then Some (TypeError ''invalid argument. Second argument must be a positive number.'')
      else None)"

definition kumaraswamy_validate :: "'x jsval \<Rightarrow> 'x jsval \<Rightarrow> error option" where
  "kumaraswamy_validate a b =
     (if \<not> isPositiveNumber a
      then Some (TypeError ''invalid argument. First argument must be a positive number.'')
      else if \<not> isPositiveNumber b
      then Some (TypeError ''invalid argument. Second argument must be a positive number.'')
      else None)"


text \<open>A store that holds three state arrays of the example generator.\<close>

definition three_arrays :: "nat world" where
  "three_arrays =
     \<lparr>u32arrays = (\<lambda>a. [])(0 := [1234, 1234], 1 := [99, 99], 2 := [7, 7, 8]), array_lim = 3,
      generators = (\<lambda>g. \<lparr>STATE = 0, shared = False\<rparr>), generator_lim = 0,
      external = 0\<rparr>"

text \<open>A sampler for the strided fills whose generator is a counter.\<close>

definition count_up :: "number list \<Rightarrow> nat \<Rightarrow> number \<times> nat" where
  "count_up ps n = (Finite (real n), Suc n)"

section \<open>Draws as functions of a state array\<close>

text \<open>
  Two notions for the proofs: a draw of the bit generator as a source on the state
  array alone, and a function on a state array applied to the array at an address of
  the store.
\<close>

definition pure_source :: "bitgen \<Rightarrow> bool \<Rightarrow> u32 list source" where
  "pure_source bg nrm st =
     (case (if nrm then next_normalized bg else next_raw bg) st of (u, st') \<Rightarrow> (Inr u, st'))"

definition on_array :: "addr \<Rightarrow> (u32 list \<Rightarrow> 'r \<times> u32 list) \<Rightarrow> 'x world \<Rightarrow> 'r \<times> 'x world" where
  "on_array a F w =
     (case F (u32arrays w a) of (r, st) \<Rightarrow> (r, w\<lparr>u32arrays := (u32arrays w)(a := st)\<rparr>))"

section \<open>What the factories do with their arguments\<close>

lemmas factory_simps =
  factory_def factory_rand_def options_rand_def randu_def from_seed_def new_array_def
  new_generator_def factory_prng_def

lemmas call_simps =
  calls_def erlang_def erlang1_def erlang2_def kumaraswamy_def kumaraswamy1_def
  kumaraswamy2_def isnan_def isPositiveInteger_def num_eq_def num_le_def first_draw_def
  mt_draw_def lehmer_next_def

lemma factoryE:
  assumes "factory bg d entropy arguments w0 = Inr (h, w1)"
  obtains rand k lambda opts where
    "factory_rand bg d entropy arguments w0 = Inr ((rand, k, lambda, opts), w1)"
    "h = factory_prng bg d rand k lambda opts"
  using assms by (auto simp: factory_def split: sum.splits)

lemma factory_rand_opts:
  "factory_rand bg d entropy arguments w0 = Inr ((rand, k, lambda, opts), w1)
    \<Longrightarrow> opts = options_argument arguments"
  by (auto simp: factory_rand_def split: list.splits sum.splits option.splits)

lemma factory_rand_unbound:
  "factory_rand bg d entropy arguments w0 = Inr ((rand, k, lambda, opts), w1)
    \<Longrightarrow> length arguments \<le> 1 \<Longrightarrow> k = Undefined \<and> lambda = Undefined"
  by (auto simp: factory_rand_def split: list.splits sum.splits)

lemma factory_rand_bound:
  "factory_rand bg d entropy (k0 # lambda0 # rest) w0 = Inr ((rand, k, lambda, opts), w1)
    \<Longrightarrow> k = k0 \<and> lambda = lambda0 \<and> validate d k0 lambda0 = None"
  by (auto simp: factory_rand_def split: list.splits sum.splits option.splits)

lemma options_rand_external:
  "options_rand bg entropy opts w0 = Inr (rand, w1) \<Longrightarrow> hasOwnProp opts ''prng''
    \<Longrightarrow> truthy opts \<and> truthy (getprop opts ''prng'') \<and> (\<exists>f. rand = External f) \<and> w1 = w0"
  by (cases opts) (auto simp: options_rand_def split: if_splits jsval.splits option.splits)

lemma options_rand_builtin:
  "options_rand bg entropy opts w0 = Inr (rand, w1) \<Longrightarrow> \<not> hasOwnProp opts ''prng''
    \<Longrightarrow> \<not> truthy (getprop opts ''prng'') \<and>
        (\<exists>g. rand = Builtin g \<and> randu bg entropy (Some opts) w0 = Inr (g, w1))"
  by (cases opts) (auto simp: options_rand_def split: if_splits sum.splits)

lemma factory_rand_external:
  assumes "factory_rand bg d entropy arguments w0 = Inr ((rand, k, lambda, opts), w1)"
    and "hasOwnProp (options_argument arguments) ''prng''"
  shows "truthy opts \<and> truthy (getprop opts ''prng'') \<and> (\<exists>f. rand = External f) \<and> w1 = w0"
  using assms
  by (auto simp: factory_rand_def split: list.splits sum.splits option.splits
           dest!: options_rand_external)

lemma factory_rand_builtin:
  assumes "factory_rand bg d entropy arguments w0 = Inr ((rand, k, lambda, opts), w1)"
    and "\<not> hasOwnProp (options_argument arguments) ''prng''"
  shows "\<not> (truthy opts \<and> truthy (getprop opts ''prng'')) \<and> (\<exists>g. rand = Builtin g)"
  using assms
  by (auto simp: factory_rand_def split: list.splits sum.splits option.splits
           dest!: options_rand_builtin)

section \<open>Calls with invalid parameters\<close>

lemma invoke_unbound:
  "invoke (factory_prng bg d rand Undefined lambda opts) =
     prng2 d (if truthy opts \<and> truthy (getprop opts ''prng'') then call_rand bg rand
              else call_normalized bg rand)"
  by (simp add: factory_prng_def)

lemma factory_unbound:
  assumes "factory bg d entropy arguments w0 = Inr (h, w1)" and "length arguments \<le> 1"
  shows "\<exists>rand. invoke h = prng2 d rand"
proof -
  from assms(1) obtain rand k lambda opts where
    r: "factory_rand bg d entropy arguments w0 = Inr ((rand, k, lambda, opts), w1)"
    and h: "h = factory_prng bg d rand k lambda opts"
    by (rule factoryE)
  from factory_rand_unbound[OF r assms(2)] h show ?thesis
    using invoke_unbound by blast
qed

lemma erlang2_invalid:
  "k = NaN \<or> lambda = NaN \<or> num_le k (Finite 0) \<or> num_le lambda (Finite 0) \<or> num_floor k \<noteq> k
    \<Longrightarrow> erlang2 erlang0 rand k lambda s = (Inr NaN, s)"
  by (cases k; cases lambda)
     (auto simp: erlang2_def isnan_def isPositiveInteger_def num_le_def num_eq_def)

lemma kumaraswamy2_invalid:
  "a = NaN \<or> b = NaN \<or> num_le a (Finite 0) \<or> num_le b (Finite 0)
    \<Longrightarrow> kumaraswamy2 kumaraswamy0 rand a b s = (Inr NaN, s)"
  by (auto simp: kumaraswamy2_def isnan_def num_eq_def)

lemma erlang_unbound_invalid:
  assumes "factory bg (erlang erlang0 v) entropy arguments w0 = Inr (h, w1)"
    and "length arguments \<le> 1"
    and "k = NaN \<or> lambda = NaN \<or> num_le k (Finite 0) \<or> num_le lambda (Finite 0) \<or> num_floor k \<noteq> k"
  shows "invoke h k lambda w = (Inr NaN, w)"
proof -
  from factory_unbound[OF assms(1,2)] obtain rand where "invoke h = erlang2 erlang0 rand"
    by (auto simp: erlang_def)
  with assms(3) show ?thesis by (simp add: erlang2_invalid)
qed

lemma kumaraswamy_unbound_invalid:
  assumes "factory bg (kumaraswamy kumaraswamy0 v) entropy arguments w0 = Inr (h, w1)"
    and "length arguments \<le> 1"
    and "a = NaN \<or> b = NaN \<or> num_le a (Finite 0) \<or> num_le b (Finite 0)"
  shows "invoke h a b w = (Inr NaN, w)"
proof -
  from factory_unbound[OF assms(1,2)] obtain rand where
    "invoke h = kumaraswamy2 kumaraswamy0 rand"
    by (auto simp: kumaraswamy_def)
  with assms(3) show ?thesis by (simp add: kumaraswamy2_invalid)
qed

text \<open>
  What the guards of \<open>erlang2\<close> and \<open>kumaraswamy2\<close> refuse is in the four lemmas above: a
  parameter that is \<open>NaN\<close> or not positive, and a finite shape that is not an integer.
  An infinite shape is not among them.
\<close>

lemma isPositiveInteger_PosInf: "isPositiveInteger PosInf"
  by (simp add: isPositiveInteger_def num_eq_def)

lemma erlang2_PosInf:
  "num_lt (Finite 0) lambda
    \<Longrightarrow> erlang2 erlang0 rand PosInf lambda s =
        run (erlang0 (Number PosInf) (Number lambda)) rand s"
  by (cases lambda)
     (auto simp: erlang2_def isnan_def isPositiveInteger_PosInf num_le_def num_eq_def)

text \<open>
  C2. An infinite shape is not an integer, and the parameters \<open>k = Infinity\<close>,
  \<open>lambda > 0\<close> are not refused by \<open>erlang2\<close>: \<open>isPositiveInteger( Infinity )\<close> holds, the
  guard is passed, and the call is the call of the base sampler \<open>erlang0\<close> with these
  parameters, whose result it returns. What \<open>erlang0\<close> does with an infinite shape is
  its own matter: it is not among the sources.
\<close>

theorem erlang2_infinite_shape_not_refused:
  assumes "num_lt (Finite 0) lambda"
  shows "isPositiveInteger PosInf \<and> num_floor PosInf = PosInf \<and>
         erlang2 erlang0 rand PosInf lambda s =
           run (erlang0 (Number PosInf) (Number lambda)) rand s"
  using assms by (simp add: isPositiveInteger_PosInf erlang2_PosInf)

theorem erlang2_infinite_shape_not_refused_witness:
  "num_lt (Finite 0) (Finite 1) \<and>
   erlang2 (first_draw :: nat jsval \<Rightarrow> nat jsval \<Rightarrow> sampler) counter PosInf (Finite 1) 5 =
     (Inr (Finite (1 / 7)), 6) \<and>
   fst (erlang2 (first_draw :: nat jsval \<Rightarrow> nat jsval \<Rightarrow> sampler) counter PosInf (Finite 1) 5)
     \<noteq> Inr NaN"
proof -
  have p: "num_lt (Finite 0) (Finite 1)"
    by simp
  from erlang2_infinite_shape_not_refused[OF p,
         of "first_draw :: nat jsval \<Rightarrow> nat jsval \<Rightarrow> sampler" counter 5] p
  show ?thesis
    by (simp add: first_draw_def counter_def)
qed

lemma factory_prng_PRNG: "PRNG (factory_prng bg d rand k lambda opts) = rand"
  by (simp add: factory_prng_def)

text \<open>
  C9. A function returned by \<open>factory\<close> without bound parameters, called with
  \<open>k = Infinity\<close> and \<open>lambda > 0\<close>, runs the base sampler on its uniform source: the source
  given as the \<open>prng\<close> option, or the normalized base generator. The call is not one that
  leaves the source alone.
\<close>

theorem infinite_shape_call_runs_on_source:
  assumes "factory bg (erlang erlang0 v) entropy arguments w0 = Inr (h, w1)"
    and "length arguments \<le> 1"
    and "num_lt (Finite 0) lambda"
  shows "invoke h PosInf lambda w =
           run (erlang0 (Number PosInf) (Number lambda))
             (if hasOwnProp (options_argument arguments) ''prng''
              then call_rand bg (PRNG h) else call_normalized bg (PRNG h)) w"
proof -
  from assms(1) obtain rand k lambda' opts where
    r: "factory_rand bg (erlang erlang0 v) entropy arguments w0 =
          Inr ((rand, k, lambda', opts), w1)"
    and h: "h = factory_prng bg (erlang erlang0 v) rand k lambda' opts"
    by (rule factoryE)
  have u: "k = Undefined"
    using factory_rand_unbound[OF r assms(2)] by simp
  have t: "(truthy opts \<and> truthy (getprop opts ''prng'')) =
           hasOwnProp (options_argument arguments) ''prng''"
    using factory_rand_external[OF r] factory_rand_builtin[OF r] by blast
  have "invoke h = erlang2 erlang0
          (if hasOwnProp (options_argument arguments) ''prng''
           then call_rand bg (PRNG h) else call_normalized bg (PRNG h))"
    using invoke_unbound[of bg "erlang erlang0 v" rand lambda' opts] h u t
    by (simp add: factory_prng_PRNG erlang_def)
  with assms(3) show ?thesis
    by (simp add: erlang2_PosInf)
qed

theorem infinite_shape_call_runs_on_source_witness:
  "\<exists>h w1.
     factory lehmer (erlang first_draw erlang_validate) [42]
       [Object [(''prng'', Function counter)]] (empty_world 5) = Inr (h, w1) \<and>
     length [Object [(''prng'', Function counter)]] \<le> 1 \<and> num_lt (Finite 0) (Finite 1) \<and>
     external w1 = 5 \<and>
     fst (invoke h PosInf (Finite 1) w1) = Inr (Finite (1 / 7)) \<and>
     external (snd (invoke h PosInf (Finite 1) w1)) = 6"
proof -
  obtain h w1 where
    f: "factory lehmer (erlang first_draw erlang_validate) [42]
          [Object [(''prng'', Function counter)]] (empty_world 5) = Inr (h, w1)"
    and e: "external w1 = 5"
    and p: "PRNG h = External counter"
    by (simp add: factory_simps empty_world_def)
  have l: "length [Object [(''prng'', Function counter)]] \<le> 1"
    and n: "num_lt (Finite 0) (Finite 1)"
    by simp_all
  from infinite_shape_call_runs_on_source[OF f l n, of w1] p e
  have "invoke h PosInf (Finite 1) w1 = (Inr (Finite (1 / 7)), w1\<lparr>external := 6\<rparr>)"
    by (simp add: first_draw_def external_call_def counter_def)
  with f e l n show ?thesis
    by simp
qed

section \<open>A uniform source given by the caller\<close>

text \<open>
  C3. When the options given to \<open>factory\<close> have a \<open>prng\<close> property and \<open>factory\<close> returns,
  reading \<open>seed\<close>, \<open>seedLength\<close>, \<open>state\<close>, \<open>stateLength\<close> or \<open>byteLength\<close> of the returned
  function gives \<open>null\<close>.
\<close>

theorem external_prng_introspection_null:
  assumes "factory bg d entropy arguments w0 = Inr (h, w1)"
    and "hasOwnProp (options_argument arguments) ''prng''"
  shows "seed h w = (Inr Null, w) \<and> seedLength h w = (Inr Null, w) \<and>
         state_get h w = (Inr Null, w) \<and> stateLength h w = (Inr Null, w) \<and>
         byteLength h w = (Inr Null, w)"
proof -
  from assms(1) obtain rand k lambda opts where
    r: "factory_rand bg d entropy arguments w0 = Inr ((rand, k, lambda, opts), w1)"
    and h: "h = factory_prng bg d rand k lambda opts"
    by (rule factoryE)
  from factory_rand_external[OF r assms(2)] h show ?thesis
    by (simp add: factory_prng_def constantFunction_def)
qed

theorem external_prng_introspection_null_witness:
  "\<exists>h w1.
     factory lehmer (erlang first_draw erlang_validate) [42]
       [Number (Finite 2), Number (Finite 1), Object [(''prng'', Function counter)]]
       (empty_world 0) = Inr (h, w1) \<and>
     hasOwnProp (options_argument
       [Number (Finite 2), Number (Finite 1), Object [(''prng'', Function counter)]]) ''prng'' \<and>
     seed h w1 = (Inr Null, w1) \<and> seedLength h w1 = (Inr Null, w1) \<and>
     state_get h w1 = (Inr Null, w1) \<and> stateLength h w1 = (Inr Null, w1) \<and>
     byteLength h w1 = (Inr Null, w1)"
proof -
  obtain h w1 where
    f: "factory lehmer (erlang first_draw erlang_validate) [42]
          [Number (Finite 2), Number (Finite 1), Object [(''prng'', Function counter)]]
          (empty_world 0) = Inr (h, w1)"
    by (simp add: factory_simps erlang_def erlang_validate_def)
  have p: "hasOwnProp (options_argument
       [Number (Finite 2), Number (Finite 1), Object [(''prng'', Function counter)]]) ''prng''"
    by simp
  from external_prng_introspection_null[OF f p, of w1] f p show ?thesis
    by blast
qed

text \<open>
  C10. When the options given to \<open>factory\<close> have a \<open>prng\<close> property, assigning any value
  to \<open>state\<close> of the returned function does not throw and changes nothing in the store,
  and \<open>state\<close> still reads \<open>null\<close>.
\<close>

theorem external_prng_state_setter_noop:
  assumes "factory bg d entropy arguments w0 = Inr (h, w1)"
    and "hasOwnProp (options_argument arguments) ''prng''"
  shows "state_set h s w = Inr w \<and> state_get h w = (Inr Null, w)"
proof -
  from assms(1) obtain rand k lambda opts where
    r: "factory_rand bg d entropy arguments w0 = Inr ((rand, k, lambda, opts), w1)"
    and h: "h = factory_prng bg d rand k lambda opts"
    by (rule factoryE)
  from factory_rand_external[OF r assms(2)] h show ?thesis
    by (simp add: factory_prng_def constantFunction_def noop_def)
qed

theorem external_prng_state_setter_noop_witness:
  "\<exists>h w1.
     factory lehmer (kumaraswamy first_draw kumaraswamy_validate) [42]
       [Object [(''prng'', Function counter)]] (empty_world 0) = Inr (h, w1) \<and>
     hasOwnProp (options_argument [Object [(''prng'', Function counter)]]) ''prng'' \<and>
     state_set h (Uint32Array 0) w1 = Inr w1 \<and> state_get h w1 = (Inr Null, w1)"
proof -
  obtain h w1 where
    f: "factory lehmer (kumaraswamy first_draw kumaraswamy_validate) [42]
          [Object [(''prng'', Function counter)]] (empty_world 0) = Inr (h, w1)"
    by (simp add: factory_simps)
  have p: "hasOwnProp (options_argument [Object [(''prng'', Function counter)]]) ''prng''"
    by simp
  from external_prng_state_setter_noop[OF f p, of "Uint32Array 0" w1] f p show ?thesis
    by blast
qed

section \<open>Bound parameters\<close>

text \<open>
  C4. A call of \<open>factory\<close> with two parameters or more, whose first two arguments
  \<open>validate\<close> refuses, throws the error of \<open>validate\<close>, whatever the options are; a call
  with parameters that returns a function is one whose parameters \<open>validate\<close> accepts.
\<close>

theorem factory_invalid_bound_parameters_throw:
  "(validate d k lambda = Some err \<longrightarrow> factory bg d entropy (k # lambda # rest) w = Inl err) \<and>
   (factory bg d entropy (k # lambda # rest) w = Inr (h, w') \<longrightarrow> validate d k lambda = None)"
  by (auto simp: factory_def factory_rand_def split: option.splits)

theorem factory_invalid_bound_parameters_throw_witness:
  "validate (erlang first_draw erlang_validate)
     (Number (Finite 2) :: nat jsval) (Number (Finite (-1))) =
     Some (TypeError ''invalid argument. Second argument must be a positive number.'') \<and>
   factory lehmer (erlang first_draw erlang_validate) [42]
     [Number (Finite 2), Number (Finite (-1)), Object [(''seed'', Number (Finite 1234))]]
     (empty_world (0::nat)) =
     Inl (TypeError ''invalid argument. Second argument must be a positive number.'') \<and>
   (\<exists>h w'. factory lehmer (kumaraswamy first_draw kumaraswamy_validate) [42]
       [Number (Finite 2), Number (Finite 3)] (empty_world (0::nat)) = Inr (h, w') \<and>
     validate (kumaraswamy first_draw kumaraswamy_validate)
       (Number (Finite 2) :: nat jsval) (Number (Finite 3)) = None)"
proof -
  have v: "validate (erlang first_draw erlang_validate)
     (Number (Finite 2) :: nat jsval) (Number (Finite (-1))) =
     Some (TypeError ''invalid argument. Second argument must be a positive number.'')"
    by (simp add: erlang_def erlang_validate_def)
  obtain h w' where
    f: "factory lehmer (kumaraswamy first_draw kumaraswamy_validate) [42]
       [Number (Finite 2), Number (Finite 3)] (empty_world (0::nat)) = Inr (h, w')"
    by (simp add: factory_simps kumaraswamy_def kumaraswamy_validate_def)
  from factory_invalid_bound_parameters_throw
         [of "erlang first_draw erlang_validate" "Number (Finite 2)" "Number (Finite (-1))"
             "TypeError ''invalid argument. Second argument must be a positive number.''"
             lehmer "[42]" "[Object [(''seed'', Number (Finite 1234))]]" "empty_world 0" h w']
       factory_invalid_bound_parameters_throw
         [of "kumaraswamy first_draw kumaraswamy_validate" "Number (Finite 2)" "Number (Finite 3)"
             _ lehmer "[42]" "[]" "empty_world 0" h w']
       v f
  show ?thesis by simp
qed

section \<open>Serialization\<close>

lemma toJSON_builtin:
  "fst (toJSON name (Builtin g) k lambda w) =
     Inr (Object [(''type'', String ''PRNG''), (''name'', String name),
                  (''state'', Object [(''type'', String ''Uint32Array''),
                     (''data'', Array (map (\<lambda>x. of_uint (unat x))
                                          (u32arrays w (STATE (generators w g)))))]),
                  (''params'', Array (if isUndefined k then [] else [k, lambda]))])"
  by (simp add: toJSON_def mt_getState_def new_array_def)

text \<open>
  C8. \<open>toJSON\<close> of a function returned for options with a \<open>prng\<close> property is \<open>null\<close>.
  Otherwise it is an object with the fields \<open>type\<close> (\<open>PRNG\<close>), \<open>name\<close>, \<open>state\<close> (the
  current state array of the underlying generator, as JSON) and \<open>params\<close>: the two bound
  parameters when \<open>factory\<close> was called with parameters, the empty list when not.
  \<open>validate\<close> is taken to refuse an undefined first parameter.
\<close>

theorem toJSON_shape:
  assumes "factory bg d entropy arguments w0 = Inr (h, w1)"
    and "\<And>l. validate d Undefined l \<noteq> None"
  shows "(hasOwnProp (options_argument arguments) ''prng'' \<longrightarrow>
            toJSON_method h w = (Inr Null, w)) \<and>
         (\<not> hasOwnProp (options_argument arguments) ''prng'' \<longrightarrow>
            (\<exists>g. PRNG h = Builtin g \<and>
               fst (toJSON_method h w) =
                 Inr (Object [(''type'', String ''PRNG''), (''name'', String (dist_NAME d)),
                   (''state'', Object [(''type'', String ''Uint32Array''),
                      (''data'', Array (map (\<lambda>x. of_uint (unat x))
                                           (u32arrays w (STATE (generators w g)))))]),
                   (''params'', Array (case arguments of
                                         k # lambda # rest \<Rightarrow> [k, lambda] | _ \<Rightarrow> []))])))"
proof -
  from assms(1) obtain rand k lambda opts where
    r: "factory_rand bg d entropy arguments w0 = Inr ((rand, k, lambda, opts), w1)"
    and h: "h = factory_prng bg d rand k lambda opts"
    by (rule factoryE)
  have ext: "toJSON_method h w = (Inr Null, w)"
    if "hasOwnProp (options_argument arguments) ''prng''"
    using factory_rand_external[OF r that] h
    by (simp add: factory_prng_def constantFunction_def)
  have params: "(if isUndefined k then [] else [k, lambda]) =
                (case arguments of k # lambda # rest \<Rightarrow> [k, lambda] | _ \<Rightarrow> [])"
  proof (cases "length arguments \<le> 1")
    case True
    with factory_rand_unbound[OF r] show ?thesis
      by (auto split: list.splits)
  next
    case False
    then obtain k0 lambda0 rest where a: "arguments = k0 # lambda0 # rest"
      by (cases arguments; cases "tl arguments") auto
    from factory_rand_bound[OF r[unfolded a]] assms(2)[of lambda0]
    have "k = k0" "lambda = lambda0" "k0 \<noteq> Undefined"
      by auto
    then show ?thesis using a by (cases k0) auto
  qed
  have blt: "\<exists>g. PRNG h = Builtin g \<and>
               fst (toJSON_method h w) =
                 Inr (Object [(''type'', String ''PRNG''), (''name'', String (dist_NAME d)),
                   (''state'', Object [(''type'', String ''Uint32Array''),
                      (''data'', Array (map (\<lambda>x. of_uint (unat x))
                                           (u32arrays w (STATE (generators w g)))))]),
                   (''params'', Array (case arguments of
                                         k # lambda # rest \<Rightarrow> [k, lambda] | _ \<Rightarrow> []))])"
    if "\<not> hasOwnProp (options_argument arguments) ''prng''"
  proof -
    from factory_rand_builtin[OF r that] obtain g where
      g: "rand = Builtin g" and n: "\<not> (truthy opts \<and> truthy (getprop opts ''prng''))"
      by auto
    from n g h have "PRNG h = Builtin g"
      and "toJSON_method h = toJSON (dist_NAME d) (Builtin g) k lambda"
      by (auto simp: factory_prng_def)
    then show ?thesis using toJSON_builtin[of "dist_NAME d" g k lambda w] params by simp
  qed
  from ext blt show ?thesis by blast
qed

theorem toJSON_shape_witness:
  "\<exists>h w1 h' w1'.
     factory lehmer (erlang first_draw erlang_validate) [42]
       [Number (Finite 2), Number (Finite 1), Object [(''seed'', Number (Finite 1234))]]
       (empty_world (0::nat)) = Inr (h, w1) \<and>
     (\<forall>l :: nat jsval. validate (erlang first_draw erlang_validate) Undefined l \<noteq> None) \<and>
     fst (toJSON_method h w1) =
       Inr (Object [(''type'', String ''PRNG''), (''name'', String ''erlang''),
         (''state'', Object [(''type'', String ''Uint32Array''),
                             (''data'', Array [of_uint 1234, of_uint 1234])]),
         (''params'', Array [Number (Finite 2), Number (Finite 1)])]) \<and>
     factory lehmer (erlang first_draw erlang_validate) [42]
       [Object [(''prng'', Function counter)]] (empty_world 0) = Inr (h', w1') \<and>
     toJSON_method h' w1' = (Inr Null, w1')"
proof -
  obtain h w1 where
    f: "factory lehmer (erlang first_draw erlang_validate) [42]
          [Number (Finite 2), Number (Finite 1), Object [(''seed'', Number (Finite 1234))]]
          (empty_world (0::nat)) = Inr (h, w1)"
    and p: "PRNG h = Builtin 0"
    and s: "u32arrays w1 (STATE (generators w1 0)) = [1234, 1234]"
    by (simp add: factory_simps erlang_def erlang_validate_def lehmer_def empty_world_def)
  obtain h' w1' where
    f': "factory lehmer (erlang first_draw erlang_validate) [42]
           [Object [(''prng'', Function counter)]] (empty_world 0) = Inr (h', w1')"
    by (simp add: factory_simps)
  have v: "validate (erlang first_draw erlang_validate) Undefined l \<noteq> None" for l :: "nat jsval"
    by (simp add: erlang_def erlang_validate_def)
  from toJSON_shape[OF f v, of w1] p s
  have "fst (toJSON_method h w1) =
       Inr (Object [(''type'', String ''PRNG''), (''name'', String ''erlang''),
         (''state'', Object [(''type'', String ''Uint32Array''),
                             (''data'', Array [of_uint 1234, of_uint 1234])]),
         (''params'', Array [Number (Finite 2), Number (Finite 1)])])"
    by (auto simp: erlang_def)
  moreover from toJSON_shape[OF f' v, of w1'] have "toJSON_method h' w1' = (Inr Null, w1')"
    by simp
  ultimately show ?thesis using f f' v by simp
qed

section \<open>Draws depend on the state array alone\<close>

lemma on_array_generators [simp]: "generators (snd (on_array a F w)) = generators w"
  by (simp add: on_array_def split: prod.splits)

lemma on_array_again:
  "on_array a G (snd (on_array a F w)) =
   (case F (u32arrays w a) of (r, st) \<Rightarrow>
      case G st of (r', st') \<Rightarrow> (r', w\<lparr>u32arrays := (u32arrays w)(a := st')\<rparr>))"
  by (simp add: on_array_def split: prod.splits)

lemma mt_draw_on_array:
  "mt_draw bg nrm g w = on_array (STATE (generators w g)) (pure_source bg nrm) w"
  by (simp add: mt_draw_def on_array_def pure_source_def Let_def split: prod.splits)

lemma run_mt_draw:
  "STATE (generators w g) = a
    \<Longrightarrow> run smp (mt_draw bg nrm g) w = on_array a (run smp (pure_source bg nrm)) w"
proof (induction smp arbitrary: w)
  case (Return v)
  then show ?case by (simp add: on_array_def)
next
  case (Throw e)
  then show ?case by (simp add: on_array_def)
next
  case (Draw k)
  obtain u st where p: "pure_source bg nrm (u32arrays w a) = (Inr u, st)"
    by (cases "(if nrm then next_normalized bg else next_raw bg) (u32arrays w a)")
       (simp add: pure_source_def)
  let ?w = "w\<lparr>u32arrays := (u32arrays w)(a := st)\<rparr>"
  have d: "mt_draw bg nrm g w = (Inr u, ?w)"
    using Draw.prems p by (simp add: mt_draw_on_array on_array_def)
  have "STATE (generators ?w g) = a"
    using Draw.prems by simp
  from Draw.IH[OF _ this, of "k u"] have
    "run (k u) (mt_draw bg nrm g) ?w = on_array a (run (k u) (pure_source bg nrm)) ?w"
    by simp
  with d p show ?case
    by (simp add: on_array_def split: prod.splits)
qed

lemma on_array_const: "on_array a (\<lambda>st. (r, st)) w = (r, w)"
  by (simp add: on_array_def)

lemma samplers_on_array:
  assumes "STATE (generators w g) = a"
  shows "erlang1 e0 (mt_draw bg nrm g) k lambda w =
           on_array a (erlang1 e0 (pure_source bg nrm) k lambda) w"
    and "erlang2 e0 (mt_draw bg nrm g) x y w =
           on_array a (erlang2 e0 (pure_source bg nrm) x y) w"
    and "kumaraswamy1 e0 (mt_draw bg nrm g) k lambda w =
           on_array a (kumaraswamy1 e0 (pure_source bg nrm) k lambda) w"
    and "kumaraswamy2 e0 (mt_draw bg nrm g) x y w =
           on_array a (kumaraswamy2 e0 (pure_source bg nrm) x y) w"
  using run_mt_draw[OF assms]
  by (simp_all add: erlang1_def erlang2_def kumaraswamy1_def kumaraswamy2_def on_array_def)

text \<open>
  A function returned for a base generator is a function of the state array of that
  generator: the same function \<open>F\<close> for every generator and every store.
\<close>

lemma invoke_on_array:
  assumes "d = erlang e0 v \<or> d = kumaraswamy e0 v"
  shows "\<exists>F. \<forall>g opts x y w. \<not> (truthy opts \<and> truthy (getprop opts ''prng'')) \<longrightarrow>
           invoke (factory_prng bg d (Builtin g) k lambda opts) x y w =
             on_array (STATE (generators w g)) (F x y) (w :: 'x world)"
proof -
  let ?r = "pure_source bg True"
  show ?thesis
  proof (cases "isUndefined k")
    case True
    show ?thesis
      apply (rule exI[of _ "if d = erlang e0 v then erlang2 e0 ?r else kumaraswamy2 e0 ?r"])
      using assms True
      by (auto simp: factory_prng_def erlang_def kumaraswamy_def samplers_on_array)
  next
    case False
    show ?thesis
      apply (rule exI[of _ "if d = erlang e0 v then (\<lambda>x y. erlang1 e0 ?r k lambda)
                            else (\<lambda>x y. kumaraswamy1 e0 ?r k lambda)"])
      using assms False
      by (auto simp: factory_prng_def erlang_def kumaraswamy_def samplers_on_array)
  qed
qed

lemma call_seq_on_array:
  assumes "\<And>x y w. f x y w = on_array (STATE (generators w g)) (F x y) w"
  shows "call_seq f ps w = on_array (STATE (generators w g)) (call_seq F ps) w"
proof (induction ps arbitrary: w)
  case Nil
  show ?case by (simp add: on_array_def)
next
  case (Cons p ps)
  obtain x y where p: "p = (x, y)" by (cases p)
  let ?a = "STATE (generators w g)"
  obtain r st where F: "F x y (u32arrays w ?a) = (r, st)"
    by (cases "F x y (u32arrays w ?a)")
  let ?w = "w\<lparr>u32arrays := (u32arrays w)(?a := st)\<rparr>"
  have f: "f x y w = (r, ?w)"
    using F by (simp add: assms on_array_def)
  have "call_seq f ps ?w = on_array ?a (call_seq F ps) ?w"
    using Cons.IH[of ?w] by simp
  with f F p show ?case
    by (simp add: on_array_def split: prod.splits)
qed

lemma calls_on_array:
  assumes "d = erlang e0 v \<or> d = kumaraswamy e0 v"
  shows "\<exists>F. \<forall>g opts ps w. \<not> (truthy opts \<and> truthy (getprop opts ''prng'')) \<longrightarrow>
           calls (factory_prng bg d (Builtin g) k lambda opts) ps w =
             on_array (STATE (generators w g)) (F ps) (w :: 'x world)"
proof -
  from invoke_on_array[OF assms, of bg k lambda] obtain F where
    F: "\<And>g opts x y w. \<not> (truthy opts \<and> truthy (getprop opts ''prng'')) \<Longrightarrow>
           invoke (factory_prng bg d (Builtin g) k lambda opts) x y w =
             on_array (STATE (generators w g)) (F x y) (w :: 'x world)"
    by blast
  show ?thesis
  proof (intro exI[of _ "call_seq F"] allI impI)
    fix g ps and opts :: "'x jsval" and w :: "'x world"
    assume "\<not> (truthy opts \<and> truthy (getprop opts ''prng''))"
    from F[OF this] show "calls (factory_prng bg d (Builtin g) k lambda opts) ps w =
             on_array (STATE (generators w g)) (call_seq F ps) w"
      unfolding calls_def by (rule call_seq_on_array)
  qed
qed

text \<open>
  So two such functions, on generators whose state arrays hold the same words, return
  the same results; and the calls of one change nothing but the state array of its
  generator.
\<close>

lemma calls_determined:
  assumes "d = erlang e0 v \<or> d = kumaraswamy e0 v"
    and "\<not> (truthy opts \<and> truthy (getprop opts ''prng''))"
    and "\<not> (truthy opts' \<and> truthy (getprop opts' ''prng''))"
    and "u32arrays w (STATE (generators w g)) = u32arrays w' (STATE (generators w' g'))"
  shows "fst (calls (factory_prng bg d (Builtin g) k lambda opts) ps (w :: 'x world)) =
         fst (calls (factory_prng bg d (Builtin g') k lambda opts') ps (w' :: 'x world))"
proof -
  from calls_on_array[OF assms(1), of bg k lambda] obtain F where
    "\<And>g opts ps w. \<not> (truthy opts \<and> truthy (getprop opts ''prng'')) \<Longrightarrow>
           calls (factory_prng bg d (Builtin g) k lambda opts) ps w =
             on_array (STATE (generators w g)) (F ps) (w :: 'x world)"
    by blast
  with assms(2-4) show ?thesis
    by (simp add: on_array_def split: prod.splits)
qed

lemma calls_frame:
  assumes "d = erlang e0 v \<or> d = kumaraswamy e0 v"
    and "\<not> (truthy opts \<and> truthy (getprop opts ''prng''))"
    and "calls (factory_prng bg d (Builtin g) k lambda opts) ps (w :: 'x world) = (rs, w')"
  shows "generators w' = generators w \<and>
         (\<forall>a. a \<noteq> STATE (generators w g) \<longrightarrow> u32arrays w' a = u32arrays w a)"
proof -
  from calls_on_array[OF assms(1), of bg k lambda] obtain F where
    "\<And>g opts ps w. \<not> (truthy opts \<and> truthy (getprop opts ''prng'')) \<Longrightarrow>
           calls (factory_prng bg d (Builtin g) k lambda opts) ps w =
             on_array (STATE (generators w g)) (F ps) (w :: 'x world)"
    by blast
  with assms(2,3) show ?thesis
    by (auto simp: on_array_def split: prod.splits)
qed

section \<open>Generators made from a seed\<close>

lemma randu_seeded:
  assumes "hasOwnProp opts ''seed''" and "\<not> hasOwnProp opts ''state''"
    and "randu bg entropy (Some opts) w0 = Inr (g, w1)"
  shows "\<exists>sd. seed_words (getprop opts ''seed'') = Some sd \<and> seed_ok bg sd \<and>
              from_seed bg sd w0 = (g, w1)"
  using assms by (auto simp: randu_def split: if_splits option.splits)

lemma from_seed_facts:
  assumes "from_seed bg sd w0 = (g, w1)"
  shows "g = generator_lim w0" and "STATE (generators w1 g) = array_lim w0"
    and "u32arrays w1 (array_lim w0) = seed_state bg sd"
    and "array_lim w1 = Suc (array_lim w0)" and "generator_lim w1 = Suc (generator_lim w0)"
    and "\<And>a. a \<noteq> array_lim w0 \<Longrightarrow> u32arrays w1 a = u32arrays w0 a"
    and "\<And>g'. g' \<noteq> generator_lim w0 \<Longrightarrow> generators w1 g' = generators w0 g'"
  using assms by (auto simp: from_seed_def new_array_def new_generator_def)

lemma factory_rand_params:
  "factory_rand bg d entropy arguments w0 = Inr ((rand, k, lambda, opts), w1)
    \<Longrightarrow> k = (case arguments of k # lambda # rest \<Rightarrow> k | _ \<Rightarrow> Undefined) \<and>
        lambda = (case arguments of k # lambda # rest \<Rightarrow> lambda | _ \<Rightarrow> Undefined)"
  by (auto simp: factory_rand_def split: list.splits sum.splits option.splits)

lemma factory_rand_randu:
  assumes "factory_rand bg d entropy arguments w0 = Inr ((rand, k, lambda, opts), w1)"
    and "isObject (options_argument arguments)"
    and "\<not> hasOwnProp (options_argument arguments) ''prng''"
  shows "\<exists>g. rand = Builtin g \<and> randu bg entropy (Some opts) w0 = Inr (g, w1)"
  using assms
  by (auto simp: factory_rand_def split: list.splits sum.splits option.splits
           dest!: options_rand_builtin)

lemma factory_seeded:
  assumes "factory bg d entropy arguments w0 = Inr (h, w1)"
    and "hasOwnProp (options_argument arguments) ''seed''"
    and "\<not> hasOwnProp (options_argument arguments) ''state''"
    and "\<not> hasOwnProp (options_argument arguments) ''prng''"
  obtains sd opts where
    "h = factory_prng bg d (Builtin (generator_lim w0))
           (case arguments of k # lambda # rest \<Rightarrow> k | _ \<Rightarrow> Undefined)
           (case arguments of k # lambda # rest \<Rightarrow> lambda | _ \<Rightarrow> Undefined) opts"
    and "\<not> (truthy opts \<and> truthy (getprop opts ''prng''))"
    and "seed_words (getprop (options_argument arguments) ''seed'') = Some sd"
    and "from_seed bg sd w0 = (generator_lim w0, w1)"
proof -
  from assms(1) obtain rand k lambda opts where
    r: "factory_rand bg d entropy arguments w0 = Inr ((rand, k, lambda, opts), w1)"
    and h: "h = factory_prng bg d rand k lambda opts"
    by (rule factoryE)
  have o: "opts = options_argument arguments"
    using r by (rule factory_rand_opts)
  have obj: "isObject (options_argument arguments)"
    using assms(2) by (cases "options_argument arguments") auto
  from factory_rand_randu[OF r obj assms(4)] obtain g where
    g: "rand = Builtin g" and u: "randu bg entropy (Some opts) w0 = Inr (g, w1)"
    by blast
  from randu_seeded[OF _ _ u] assms(2,3) o obtain sd where
    sd: "seed_words (getprop (options_argument arguments) ''seed'') = Some sd"
    and fs: "from_seed bg sd w0 = (g, w1)"
    by auto
  have gl: "g = generator_lim w0"
    using fs by (rule from_seed_facts)
  have n: "\<not> (truthy opts \<and> truthy (getprop opts ''prng''))"
    using factory_rand_builtin[OF r assms(4)] by simp
  show thesis
    using that[OF _ n sd] h g gl fs factory_rand_params[OF r] by simp
qed

text \<open>
  C1. Two calls of \<open>factory\<close> with the same arguments, whose options hold a seed (and
  neither a state nor a uniform source), return functions that give the same sequence of
  results for the same sequence of calls: whether each is made and used in a store of
  its own, or the two are made one after the other in one store and then used one after
  the other. The results are a function of the seed, of the bound parameters and of the
  arguments of the calls.
\<close>

theorem seeded_generators_agree:
  assumes "d = erlang e0 v \<or> d = kumaraswamy e0 v"
    and "hasOwnProp (options_argument arguments) ''seed''"
    and "\<not> hasOwnProp (options_argument arguments) ''state''"
    and "\<not> hasOwnProp (options_argument arguments) ''prng''"
  shows "(factory bg d entropy arguments w1 = Inr (h1, w1') \<and>
          factory bg d entropy' arguments w2 = Inr (h2, w2')
          \<longrightarrow> fst (calls h1 ps w1') = fst (calls h2 ps w2')) \<and>
         (factory bg d entropy arguments w0 = Inr (ha, wa) \<and>
          factory bg d entropy' arguments wa = Inr (hb, wb) \<and>
          calls ha ps wb = (ra, wc) \<and> calls hb ps wc = (rb, wd)
          \<longrightarrow> ra = rb)"
proof (intro conjI impI)
  assume a: "factory bg d entropy arguments w1 = Inr (h1, w1') \<and>
             factory bg d entropy' arguments w2 = Inr (h2, w2')"
  from a have c1: "factory bg d entropy arguments w1 = Inr (h1, w1')"
    and c2: "factory bg d entropy' arguments w2 = Inr (h2, w2')"
    by simp_all
  obtain sd opts where
    h1: "h1 = factory_prng bg d (Builtin (generator_lim w1))
           (case arguments of k # lambda # rest \<Rightarrow> k | _ \<Rightarrow> Undefined)
           (case arguments of k # lambda # rest \<Rightarrow> lambda | _ \<Rightarrow> Undefined) opts"
    and n1: "\<not> (truthy opts \<and> truthy (getprop opts ''prng''))"
    and sd: "seed_words (getprop (options_argument arguments) ''seed'') = Some sd"
    and f1: "from_seed bg sd w1 = (generator_lim w1, w1')"
    by (rule factory_seeded[OF c1 assms(2-4)])
  obtain sd' opts' where
    h2: "h2 = factory_prng bg d (Builtin (generator_lim w2))
           (case arguments of k # lambda # rest \<Rightarrow> k | _ \<Rightarrow> Undefined)
           (case arguments of k # lambda # rest \<Rightarrow> lambda | _ \<Rightarrow> Undefined) opts'"
    and n2: "\<not> (truthy opts' \<and> truthy (getprop opts' ''prng''))"
    and sd': "seed_words (getprop (options_argument arguments) ''seed'') = Some sd'"
    and f2: "from_seed bg sd' w2 = (generator_lim w2, w2')"
    by (rule factory_seeded[OF c2 assms(2-4)])
  have "u32arrays w1' (STATE (generators w1' (generator_lim w1))) =
        u32arrays w2' (STATE (generators w2' (generator_lim w2)))"
    using from_seed_facts(2,3)[OF f1] from_seed_facts(2,3)[OF f2] sd sd' by simp
  from calls_determined[OF assms(1) n1 n2 this] h1 h2
  show "fst (calls h1 ps w1') = fst (calls h2 ps w2')"
    by simp
next
  assume a: "factory bg d entropy arguments w0 = Inr (ha, wa) \<and>
             factory bg d entropy' arguments wa = Inr (hb, wb) \<and>
             calls ha ps wb = (ra, wc) \<and> calls hb ps wc = (rb, wd)"
  let ?ga = "generator_lim w0" and ?gb = "generator_lim wa"
  from a have c1: "factory bg d entropy arguments w0 = Inr (ha, wa)"
    and c2: "factory bg d entropy' arguments wa = Inr (hb, wb)"
    by simp_all
  obtain sd opts where
    ha: "ha = factory_prng bg d (Builtin ?ga)
           (case arguments of k # lambda # rest \<Rightarrow> k | _ \<Rightarrow> Undefined)
           (case arguments of k # lambda # rest \<Rightarrow> lambda | _ \<Rightarrow> Undefined) opts"
    and na: "\<not> (truthy opts \<and> truthy (getprop opts ''prng''))"
    and sd: "seed_words (getprop (options_argument arguments) ''seed'') = Some sd"
    and fa: "from_seed bg sd w0 = (?ga, wa)"
    by (rule factory_seeded[OF c1 assms(2-4)])
  obtain sd' opts' where
    hb: "hb = factory_prng bg d (Builtin ?gb)
           (case arguments of k # lambda # rest \<Rightarrow> k | _ \<Rightarrow> Undefined)
           (case arguments of k # lambda # rest \<Rightarrow> lambda | _ \<Rightarrow> Undefined) opts'"
    and nb: "\<not> (truthy opts' \<and> truthy (getprop opts' ''prng''))"
    and sd': "seed_words (getprop (options_argument arguments) ''seed'') = Some sd'"
    and fb: "from_seed bg sd' wa = (?gb, wb)"
    by (rule factory_seeded[OF c2 assms(2-4)])
  note A = from_seed_facts[OF fa] and B = from_seed_facts[OF fb]
  have gne: "?ga \<noteq> ?gb" and ane: "array_lim w0 \<noteq> array_lim wa"
    using A(4,5) by simp_all
  have sa: "STATE (generators wb ?ga) = array_lim w0"
    using A(2) B(7)[OF gne] by simp
  have ca: "u32arrays wb (array_lim w0) = seed_state bg sd"
    using A(3) B(6)[OF ane] by simp
  from calls_frame[OF assms(1) na, of bg ?ga _ _ ps wb ra wc] a ha
  have fr: "generators wc = generators wb"
    "\<And>a. a \<noteq> array_lim w0 \<Longrightarrow> u32arrays wc a = u32arrays wb a"
    using sa by auto
  have "u32arrays wc (STATE (generators wc ?gb)) = seed_state bg sd'"
    using fr(1) fr(2)[of "array_lim wa"] ane B(2,3) by simp
  then have "u32arrays wb (STATE (generators wb ?ga)) =
             u32arrays wc (STATE (generators wc ?gb))"
    using sa ca sd sd' by simp
  from calls_determined[OF assms(1) na nb this, of bg
         "case arguments of k # lambda # rest \<Rightarrow> k | _ \<Rightarrow> Undefined"
         "case arguments of k # lambda # rest \<Rightarrow> lambda | _ \<Rightarrow> Undefined" ps]
  have "fst (calls ha ps wb) = fst (calls hb ps wc)"
    unfolding ha hb .
  with a show "ra = rb"
    by simp
qed

theorem seeded_generators_agree_witness:
  "\<exists>h1 w1' h2 w2' hb wb ra wc rb wd.
     hasOwnProp (options_argument [Object [(''seed'', Number (Finite 1234))]]) ''seed'' \<and>
     \<not> hasOwnProp (options_argument [Object [(''seed'', Number (Finite 1234))]]) ''state'' \<and>
     \<not> hasOwnProp (options_argument [Object [(''seed'', Number (Finite 1234))]]) ''prng'' \<and>
     factory lehmer (erlang first_draw erlang_validate) [42]
       [Object [(''seed'', Number (Finite 1234))]] (empty_world (0::nat)) = Inr (h1, w1') \<and>
     factory lehmer (erlang first_draw erlang_validate) [43]
       [Object [(''seed'', Number (Finite 1234))]] (empty_world (7::nat)) = Inr (h2, w2') \<and>
     fst (calls h1 [(Finite 2, Finite 1), (Finite 3, Finite 1)] w1') =
       [Inr (Finite (223009 / 23091222)), Inr (Finite (227368817 / 715827882))] \<and>
     fst (calls h2 [(Finite 2, Finite 1), (Finite 3, Finite 1)] w2') =
       [Inr (Finite (223009 / 23091222)), Inr (Finite (227368817 / 715827882))] \<and>
     factory lehmer (erlang first_draw erlang_validate) [43]
       [Object [(''seed'', Number (Finite 1234))]] w1' = Inr (hb, wb) \<and>
     calls h1 [(Finite 2, Finite 1), (Finite 3, Finite 1)] wb = (ra, wc) \<and>
     calls hb [(Finite 2, Finite 1), (Finite 3, Finite 1)] wc = (rb, wd) \<and> ra = rb"
proof -
  let ?d = "erlang first_draw erlang_validate :: nat dist"
  let ?args = "[Object [(''seed'', Number (Finite 1234))]] :: nat jsval list"
  let ?ps = "[(Finite 2, Finite 1), (Finite 3, Finite 1)]"
  obtain h1 w1' where
    f1: "factory lehmer ?d [42] ?args (empty_world 0) = Inr (h1, w1')"
    and v1: "fst (calls h1 ?ps w1') =
       [Inr (Finite (223009 / 23091222)), Inr (Finite (227368817 / 715827882))]"
    by (simp add: factory_simps call_simps lehmer_def empty_world_def)
  obtain h2 w2' where
    f2: "factory lehmer ?d [43] ?args (empty_world 7) = Inr (h2, w2')"
    by (simp add: factory_simps lehmer_def)
  obtain hb wb where
    fb: "factory lehmer ?d [43] ?args w1' = Inr (hb, wb)"
    by (simp add: factory_simps lehmer_def)
  obtain ra wc where ca: "calls h1 ?ps wb = (ra, wc)"
    by (cases "calls h1 ?ps wb")
  obtain rb wd where cb: "calls hb ?ps wc = (rb, wd)"
    by (cases "calls hb ?ps wc")
  have o: "hasOwnProp (options_argument ?args) ''seed''"
    "\<not> hasOwnProp (options_argument ?args) ''state''"
    "\<not> hasOwnProp (options_argument ?args) ''prng''"
    by simp_all
  have d: "?d = erlang first_draw erlang_validate \<or> ?d = kumaraswamy first_draw erlang_validate"
    by simp
  note t = seeded_generators_agree[OF d o, where bg = lehmer and entropy = "[42]"
      and entropy' = "[43]" and ps = ?ps and ?w1.0 = "empty_world 0" and ?h1.0 = h1
      and w1' = w1' and ?w2.0 = "empty_world 7" and ?h2.0 = h2 and w2' = w2'
      and ?w0.0 = "empty_world 0" and ha = h1 and wa = w1' and hb = hb and wb = wb
      and ra = ra and wc = wc and rb = rb and wd = wd]
  from t f1 f2
  have e1: "fst (calls h1 ?ps w1') = fst (calls h2 ?ps w2')"
    by simp
  from t f1 fb ca cb
  have e2: "ra = rb"
    by simp
  from o f1 f2 v1 e1 fb ca cb e2 show ?thesis
    by auto
qed

section \<open>Assigning the state of a generator with shared state\<close>

lemma mt_setState_shared:
  assumes "mt_setState bg g (Uint32Array b) w = Inr w'" and "shared (generators w g)"
  shows "length (u32arrays w b) = length (u32arrays w (STATE (generators w g)))
          \<Longrightarrow> w' = w\<lparr>u32arrays := (u32arrays w)(STATE (generators w g) := u32arrays w b)\<rparr>"
    and "length (u32arrays w b) \<noteq> length (u32arrays w (STATE (generators w g)))
          \<Longrightarrow> w' = w\<lparr>generators := (generators w)(g := (generators w g)\<lparr>STATE := b\<rparr>)\<rparr>"
  using assms by (auto simp: mt_setState_def split: if_splits)

lemma state_set_builtin:
  "\<not> (truthy opts \<and> truthy (getprop opts ''prng''))
    \<Longrightarrow> state_set (factory_prng bg d (Builtin g) k lambda opts) = mt_setState bg g"
  by (auto simp: factory_prng_def)

text \<open>
  C5. Let \<open>h\<close> and \<open>h'\<close> be functions returned by \<open>factory\<close> for two base generators that
  refer to the same state array \<open>a\<close>, the generator of \<open>h\<close> having shared state, and let a
  state array \<open>b\<close> be assigned to \<open>state\<close> of \<open>h\<close>. If \<open>b\<close> is as long as \<open>a\<close>, both generators
  still refer to \<open>a\<close>, which now holds the words of \<open>b\<close>, and the calls of \<open>h\<close> and of \<open>h'\<close>
  return what they return in any store where their state array holds the words of \<open>b\<close>.
  If the lengths differ, the generator of \<open>h\<close> refers to \<open>b\<close> and the calls of \<open>h\<close> return
  what they return from the words of \<open>b\<close>, while the generator of \<open>h'\<close> still refers to \<open>a\<close>,
  no array has changed, and the calls of \<open>h'\<close> return what they returned before.
\<close>

theorem shared_state_assignment:
  assumes "d = erlang e0 v \<or> d = kumaraswamy e0 v"
    and "d' = erlang e0' v' \<or> d' = kumaraswamy e0' v'"
    and "h = factory_prng bg d (Builtin g) k lambda opts"
    and "h' = factory_prng bg d' (Builtin g') k' lambda' opts'"
    and "\<not> (truthy opts \<and> truthy (getprop opts ''prng''))"
    and "\<not> (truthy opts' \<and> truthy (getprop opts' ''prng''))"
    and "g' \<noteq> g"
    and "shared (generators w g)"
    and "STATE (generators w g) = a" and "STATE (generators w g') = a"
    and "state_set h (Uint32Array b) w = Inr w'"
  shows "(length (u32arrays w b) = length (u32arrays w a) \<longrightarrow>
            STATE (generators w' g) = a \<and> STATE (generators w' g') = a \<and>
            u32arrays w' a = u32arrays w b \<and>
            (\<forall>wr. u32arrays wr (STATE (generators wr g)) = u32arrays w b
                  \<longrightarrow> fst (calls h ps w') = fst (calls h ps wr)) \<and>
            (\<forall>wr. u32arrays wr (STATE (generators wr g')) = u32arrays w b
                  \<longrightarrow> fst (calls h' ps w') = fst (calls h' ps wr))) \<and>
         (length (u32arrays w b) \<noteq> length (u32arrays w a) \<longrightarrow>
            STATE (generators w' g) = b \<and> STATE (generators w' g') = a \<and>
            u32arrays w' = u32arrays w \<and>
            (\<forall>wr. u32arrays wr (STATE (generators wr g)) = u32arrays w b
                  \<longrightarrow> fst (calls h ps w') = fst (calls h ps wr)) \<and>
            fst (calls h' ps w') = fst (calls h' ps w))"
proof -
  have s: "mt_setState bg g (Uint32Array b) w = Inr w'"
    using assms(11) state_set_builtin[OF assms(5)] assms(3) by simp
  note det = calls_determined[OF assms(1) assms(5) assms(5), of _ g _ g bg k lambda ps,
      folded assms(3)]
  note det' = calls_determined[OF assms(2) assms(6) assms(6), of _ g' _ g' bg k' lambda' ps,
      folded assms(4)]
  show ?thesis
  proof (intro conjI impI)
    assume len: "length (u32arrays w b) = length (u32arrays w a)"
    from mt_setState_shared(1)[OF s assms(8)] len assms(9)
    have w': "w' = w\<lparr>u32arrays := (u32arrays w)(a := u32arrays w b)\<rparr>"
      by simp
    show "STATE (generators w' g) = a" "STATE (generators w' g') = a"
      "u32arrays w' a = u32arrays w b"
      using w' assms(9,10) by simp_all
    then show "\<forall>wr. u32arrays wr (STATE (generators wr g)) = u32arrays w b
                  \<longrightarrow> fst (calls h ps w') = fst (calls h ps wr)"
      and "\<forall>wr. u32arrays wr (STATE (generators wr g')) = u32arrays w b
                  \<longrightarrow> fst (calls h' ps w') = fst (calls h' ps wr)"
      using det det' by simp_all
  next
    assume len: "length (u32arrays w b) \<noteq> length (u32arrays w a)"
    from mt_setState_shared(2)[OF s assms(8)] len assms(9)
    have w': "w' = w\<lparr>generators := (generators w)(g := (generators w g)\<lparr>STATE := b\<rparr>)\<rparr>"
      by simp
    show b: "STATE (generators w' g) = b" and a: "STATE (generators w' g') = a"
      and u: "u32arrays w' = u32arrays w"
      using w' assms(7,10) by simp_all
    show "\<forall>wr. u32arrays wr (STATE (generators wr g)) = u32arrays w b
                  \<longrightarrow> fst (calls h ps w') = fst (calls h ps wr)"
      using det b u by simp
    show "fst (calls h' ps w') = fst (calls h' ps w)"
      using det' a u assms(10) by simp
  qed
qed

theorem shared_state_assignment_witness:
  "\<exists>h w1 h' w w' w''.
     factory lehmer (erlang first_draw erlang_validate) [42]
       [Object [(''state'', Uint32Array 0), (''copy'', Boolean False)]] three_arrays = Inr (h, w1) \<and>
     factory lehmer (erlang first_draw erlang_validate) [42]
       [Object [(''state'', Uint32Array 0), (''copy'', Boolean False)]] w1 = Inr (h', w) \<and>
     shared (generators w 0) \<and> STATE (generators w 0) = 0 \<and> STATE (generators w 1) = 0 \<and>
     state_set h (Uint32Array 1) w = Inr w' \<and>
     length (u32arrays w 1) = length (u32arrays w 0) \<and>
     STATE (generators w' 0) = 0 \<and> STATE (generators w' 1) = 0 \<and> u32arrays w' 0 = [99, 99] \<and>
     fst (calls h' [(Finite 2, Finite 1)] w') = [Inr (Finite (831946 / 1073741823))] \<and>
     fst (calls h [(Finite 2, Finite 1)] w') = [Inr (Finite (831946 / 1073741823))] \<and>
     state_set h (Uint32Array 2) w = Inr w'' \<and>
     length (u32arrays w 2) \<noteq> length (u32arrays w 0) \<and>
     STATE (generators w'' 0) = 2 \<and> STATE (generators w'' 1) = 0 \<and>
     u32arrays w'' = u32arrays w \<and>
     fst (calls h [(Finite 2, Finite 1)] w'') = [Inr (Finite (6536 / 119304647))] \<and>
     fst (calls h' [(Finite 2, Finite 1)] w'') = [Inr (Finite (223009 / 23091222))]"
proof -
  let ?d = "erlang first_draw erlang_validate :: nat dist"
  let ?opts = "Object [(''state'', Uint32Array 0), (''copy'', Boolean False)] :: nat jsval"
  let ?ps = "[(Finite 2, Finite 1)]"
  obtain h w1 where
    f1: "factory lehmer ?d [42] [?opts] three_arrays = Inr (h, w1)"
    and h: "h = factory_prng lehmer ?d (Builtin 0) Undefined Undefined ?opts"
    and w1: "generator_lim w1 = 1" "generators w1 0 = \<lparr>STATE = 0, shared = True\<rparr>"
      "u32arrays w1 = u32arrays three_arrays"
    by (simp add: factory_simps lehmer_def three_arrays_def)
  obtain h' w where
    f2: "factory lehmer ?d [42] [?opts] w1 = Inr (h', w)"
    and h': "h' = factory_prng lehmer ?d (Builtin 1) Undefined Undefined ?opts"
    and w: "generators w 0 = \<lparr>STATE = 0, shared = True\<rparr>"
      "generators w 1 = \<lparr>STATE = 0, shared = True\<rparr>"
      "u32arrays w = u32arrays three_arrays"
    using w1 by (simp add: factory_simps lehmer_def three_arrays_def)
  obtain w' where s1: "state_set h (Uint32Array 1) w = Inr w'"
    using w by (simp add: h factory_prng_def mt_setState_def lehmer_def three_arrays_def)
  obtain w'' where s2: "state_set h (Uint32Array 2) w = Inr w''"
    using w by (simp add: h factory_prng_def mt_setState_def lehmer_def three_arrays_def)
  have d: "?d = erlang first_draw erlang_validate \<or> ?d = kumaraswamy first_draw erlang_validate"
    by simp
  have n: "\<not> (truthy ?opts \<and> truthy (getprop ?opts ''prng''))"
    by simp
  have g: "(1::nat) \<noteq> 0" "shared (generators w 0)" "STATE (generators w 0) = 0"
    "STATE (generators w 1) = 0"
    using w by simp_all
  note t1 = shared_state_assignment[OF d d h h' n n g s1, of ?ps]
  note t2 = shared_state_assignment[OF d d h h' n n g s2, of ?ps]
  have l1: "length (u32arrays w 1) = length (u32arrays w 0)"
    and l2: "length (u32arrays w 2) \<noteq> length (u32arrays w 0)"
    using w by (simp_all add: three_arrays_def)
  from t1 l1 have a1: "STATE (generators w' 0) = 0" "STATE (generators w' 1) = 0"
    "u32arrays w' 0 = u32arrays w 1"
    by simp_all
  have v1: "fst (calls h' ?ps w') = [Inr (Finite (831946 / 1073741823))]"
    using a1 w by (simp add: h' factory_prng_def call_simps lehmer_def three_arrays_def)
  from t2 l2 have a2: "STATE (generators w'' 0) = 2" "STATE (generators w'' 1) = 0"
    "u32arrays w'' = u32arrays w"
    by simp_all
  have v3: "fst (calls h ?ps w'') = [Inr (Finite (6536 / 119304647))]"
    using a2 w by (simp add: h factory_prng_def call_simps lehmer_def three_arrays_def)
  have v2: "fst (calls h ?ps w') = [Inr (Finite (831946 / 1073741823))]"
    using a1 w by (simp add: h factory_prng_def call_simps lehmer_def three_arrays_def)
  have "fst (calls h' ?ps w) = [Inr (Finite (223009 / 23091222))]"
    using w by (simp add: h' factory_prng_def call_simps lehmer_def three_arrays_def)
  with t2 l2 have v4: "fst (calls h' ?ps w'') = [Inr (Finite (223009 / 23091222))]"
    by simp
  from f1 f2 g(2-4) s1 l1 a1 v1 v2 s2 l2 a2 v3 v4 w(3) show ?thesis
    by (intro exI[of _ h] exI[of _ w1] exI[of _ h'] exI[of _ w] exI[of _ w'] exI[of _ w''])
       (simp add: three_arrays_def)
qed

section \<open>The two conventions of strided filling\<close>

text \<open>
  C6. A strided fill with \<open>N \<le> 0\<close> returns the output it was given, unchanged, and leaves
  the state of the generator as it was: no sampler is invoked and nothing is written.
  This holds for \<open>fill\<close> with any parameters and so for both calling conventions.
\<close>

theorem fill_nonpositive_count_noop:
  assumes "N \<le> 0"
  shows "fill N pc params oc out sampler s = (base out, s) \<and>
         strided pc oc sampler N a sa b sb xs so s = (xs, s) \<and>
         strided_ndarray pc oc sampler N a sa oa b sb ob xs so oo s = (xs, s)"
  using assms by (simp add: fill_def strided_def strided_ndarray_def)

theorem fill_nonpositive_count_noop_witness:
  "(-1::int) \<le> 0 \<and>
   fill (-1) float64array [\<lparr>base = [Finite 2], stride = 0, offset = 0\<rparr>] float64array
     \<lparr>base = [Finite 7, Finite 8], stride = 1, offset = 0\<rparr> count_up 0 = ([Finite 7, Finite 8], 0) \<and>
   strided float64array float64array count_up 0 [Finite 2] 0 [Finite 5] 0 [Finite 7, Finite 8] 1 0
     = ([Finite 7, Finite 8], 0) \<and>
   strided_ndarray float64array float64array count_up (-1) [Finite 2] 0 0 [Finite 5] 0 0
     [Finite 7, Finite 8] 1 0 0 = ([Finite 7, Finite 8], 0)"
  using fill_nonpositive_count_noop [of "-1" float64array
          "[\<lparr>base = [Finite 2], stride = 0, offset = 0\<rparr>]" float64array
          "\<lparr>base = [Finite 7, Finite 8], stride = 1, offset = 0\<rparr>" count_up 0
          "[Finite 2]" 0 "[Finite 5]" 0 "[Finite 7, Finite 8]" 1 0 0 0]
        fill_nonpositive_count_noop [of 0 float64array "[]" float64array
          "\<lparr>base = [Finite 7, Finite 8], stride = 1, offset = 0\<rparr>" count_up 0
          "[Finite 2]" 0 "[Finite 5]" 0 "[Finite 7, Finite 8]" 1 0 0 0]
  by simp

lemma stride2offset_index:
  assumes "0 \<le> i" and "i < N"
  shows "0 \<le> stride2offset N s + i * s"
proof (cases "0 < s")
  case True
  with assms show ?thesis by (simp add: stride2offset_def)
next
  case False
  have "stride2offset N s + i * s = (1 - N + i) * s"
    using False by (simp add: stride2offset_def algebra_simps)
  moreover have "0 \<le> (1 - N + i) * s"
    using assms False by (intro mult_nonpos_nonpos) simp_all
  ultimately show ?thesis by simp
qed

lemma fill_loop_view:
  assumes "0 \<le> i" and "i + int n \<le> N"
  shows "fill_loop n i pc params (view start)
           \<lparr>base = out, stride = so, offset = stride2offset N so\<rparr> sampler s =
         fill_loop n i pc params float64array
           \<lparr>base = out, stride = so, offset = int start + stride2offset N so\<rparr> sampler s"
  using assms
proof (induction n arbitrary: i out s)
  case 0
  show ?case by simp
next
  case (Suc n)
  have "0 \<le> stride2offset N so + i * so"
    using Suc.prems by (intro stride2offset_index) simp_all
  moreover have "0 \<le> i + 1" "i + 1 + int n \<le> N"
    using Suc.prems by simp_all
  ultimately show ?case
    using Suc.IH[of "i + 1"]
    by (simp add: view_def address_def algebra_simps split: prod.splits)
qed

text \<open>
  C7. The view form on the view of \<open>out\<close> that starts at \<open>start\<close> writes the same values to
  the same slots as the form with starting indices on \<open>out\<close> itself, when the starting
  index of each array is the one the view form uses: \<open>start\<close> for a stride that is not
  negative, \<open>start + (1-N)*stride\<close> for a negative one. For an output stride that is not
  negative and parameters of stride \<open>0\<close> these are the calls
  \<open>dist( N, a, 0, b, 0, view, so )\<close> and \<open>dist.ndarray( N, a, 0, 0, b, 0, 0, out, so, start )\<close>.
\<close>

theorem strided_view_ndarray_offset:
  assumes "start \<le> length out"
  shows "strided pc (view start) sampler N a sa b sb out so s =
           strided_ndarray pc float64array sampler N a sa (stride2offset N sa)
             b sb (stride2offset N sb) out so (int start + stride2offset N so) s \<and>
         (0 \<le> so \<longrightarrow>
            strided pc (view start) sampler N a 0 b 0 out so s =
              strided_ndarray pc float64array sampler N a 0 0 b 0 0 out so (int start) s)"
proof -
  have eq: "strided pc (view start) sampler N a sa b sb out so s =
           strided_ndarray pc float64array sampler N a sa (stride2offset N sa)
             b sb (stride2offset N sb) out so (int start + stride2offset N so) s"
    for sa sb so
  proof (cases "N \<le> 0")
    case True
    then show ?thesis by (simp add: strided_def strided_ndarray_def fill_def)
  next
    case False
    then have "(0::int) \<le> 0" "0 + int (nat N) \<le> N" by simp_all
    from fill_loop_view[OF this] show ?thesis
      by (simp add: strided_def strided_ndarray_def fill_def)
  qed
  have z: "stride2offset N 0 = 0" "0 \<le> so \<Longrightarrow> stride2offset N so = 0"
    by (auto simp: stride2offset_def)
  from eq[of 0 0 so] z eq[of sa sb so] show ?thesis by simp
qed

theorem strided_view_ndarray_offset_witness:
  "(1::nat) \<le> length [NaN, NaN, NaN, NaN] \<and> (0::int) \<le> 1 \<and>
   strided float64array (view 1) count_up 3 [Finite 2] 0 [Finite 5] 0
     [NaN, NaN, NaN, NaN] 1 0 = ([NaN, Finite 0, Finite 1, Finite 2], 3) \<and>
   strided_ndarray float64array float64array count_up 3 [Finite 2] 0 0 [Finite 5] 0 0
     [NaN, NaN, NaN, NaN] 1 1 0 = ([NaN, Finite 0, Finite 1, Finite 2], 3) \<and>
   strided float64array (view 1) count_up 3 [Finite 2] 0 [Finite 5] 0
     [NaN, NaN, NaN, NaN] (-1) 0 = ([NaN, Finite 2, Finite 1, Finite 0], 3) \<and>
   strided_ndarray float64array float64array count_up 3 [Finite 2] 0 0 [Finite 5] 0 0
     [NaN, NaN, NaN, NaN] (-1) 3 0 = ([NaN, Finite 2, Finite 1, Finite 0], 3)"
proof -
  have l: "(1::nat) \<le> length [NaN, NaN, NaN, NaN]"
    by simp
  have n1: "strided_ndarray float64array float64array count_up 3 [Finite 2] 0 0 [Finite 5] 0 0
     [NaN, NaN, NaN, NaN] 1 1 0 = ([NaN, Finite 0, Finite 1, Finite 2], 3)"
    by (simp add: strided_ndarray_def fill_def eval_nat_numeral address_def float64array_def
        count_up_def)
  have n2: "strided_ndarray float64array float64array count_up 3 [Finite 2] 0 0 [Finite 5] 0 0
     [NaN, NaN, NaN, NaN] (-1) 3 0 = ([NaN, Finite 2, Finite 1, Finite 0], 3)"
    by (simp add: strided_ndarray_def fill_def eval_nat_numeral address_def float64array_def
        count_up_def)
  have z: "stride2offset 3 0 = 0" "stride2offset 3 1 = 0" "stride2offset 3 (-1) = 2"
    by (simp_all add: stride2offset_def)
  from strided_view_ndarray_offset[OF l, of float64array count_up 3 "[Finite 2]" 0 "[Finite 5]" 0 1 0]
       strided_view_ndarray_offset[OF l, of float64array count_up 3 "[Finite 2]" 0 "[Finite 5]" 0 "-1" 0]
       n1 n2 z
  show ?thesis by simp
qed

theorem strided_view_negative_stride_counterexample:
  "strided float64array (view 1) count_up 2 [Finite 2] 0 [Finite 5] 0
     [NaN, NaN, NaN, NaN] (-1) 0 = ([NaN, Finite 1, Finite 0, NaN], 2) \<and>
   strided_ndarray float64array float64array count_up 2 [Finite 2] 0 0 [Finite 5] 0 0
     [NaN, NaN, NaN, NaN] (-1) 1 0 = ([Finite 1, Finite 0, NaN, NaN], 2) \<and>
   strided float64array (view 1) count_up 2 [Finite 2] 0 [Finite 5] 0
     [NaN, NaN, NaN, NaN] (-1) 0 \<noteq>
   strided_ndarray float64array float64array count_up 2 [Finite 2] 0 0 [Finite 5] 0 0
     [NaN, NaN, NaN, NaN] (-1) 1 0 \<and>
   strided float64array (view 2) count_up 3 [Finite 2] 0 [Finite 5] 0
     [NaN, NaN, NaN, NaN] (-1) 0 = ([NaN, NaN, Finite 2, Finite 1], 3) \<and>
   strided_ndarray float64array float64array count_up 3 [Finite 2] 0 0 [Finite 5] 0 0
     [NaN, NaN, NaN, NaN] (-1) 2 0 = ([Finite 2, Finite 1, Finite 0, NaN], 3)"
  by (simp add: strided_def strided_ndarray_def fill_def eval_nat_numeral address_def
      float64array_def view_def count_up_def stride2offset_def)

end
